theory Spec2Isabelle
  imports Complex_Main "HOL-Library.Sublist"
begin

section \<open>The data of main.ts\<close>

text \<open>
  The plugin of \<^verbatim>\<open>src/main.ts\<close> does two things: on a file-modify event it keeps a
  "last modified" key of the file's frontmatter up to date (\<^verbatim>\<open>handleFileChange\<close>), and on
  a command it rewrites the image embeds of the active document (\<^verbatim>\<open>editorCallback\<close>).

  Strings are lists of code units. A \<^typ>\<open>char\<close> stands for a UTF-16 code unit below 256,
  so the theory speaks about documents, paths and keys in Latin-1.

  The console (\<^verbatim>\<open>console.error\<close>, and \<^verbatim>\<open>this.log\<close>, whose body returns at once) is
  not part of the model: nothing the plugin does reads it back.
\<close>

subsection \<open>Numbers, dates and values of the frontmatter\<close>

text \<open>
  A JavaScript number is a finite double, which is a rational, or one of the three
  non-finite values. The plugin never does arithmetic on a number of the frontmatter or of
  the file's stat; it only tests it for truth and hands it to the Date constructor.
\<close>

datatype number = Finite rat | NaN | Infinity | Minus_Infinity

text \<open>
  A \<^verbatim>\<open>Date\<close> object holds a time value: an integral number of milliseconds since the
  epoch, of magnitude at most 8.64e15, or NaN (an "Invalid Date").
\<close>

datatype Date = Date int | Invalid_Date

text \<open>\<^verbatim>\<open>new Date(n)\<close> on a number: TimeClip, which truncates towards zero.\<close>

definition to_integer :: "rat \<Rightarrow> int" where
  "to_integer x = (if 0 \<le> x then \<lfloor>x\<rfloor> else \<lceil>x\<rceil>)"

fun time_clip :: "number \<Rightarrow> Date" where
  "time_clip (Finite x) =
     (if \<bar>x\<bar> \<le> 8640000000000000 then Date (to_integer x) else Invalid_Date)"
| "time_clip NaN = Invalid_Date"
| "time_clip Infinity = Invalid_Date"
| "time_clip Minus_Infinity = Invalid_Date"

text \<open>
  What a key of the frontmatter can hold (the host hands the block over as \<^verbatim>\<open>any\<close>).
  An object is kept only as what the plugin can see of it: it is truthy, and the Date
  constructor makes some Date of it (of a Date object its own time value, of a list or a
  mapping whatever the host's \<^verbatim>\<open>Date.parse\<close> makes of its primitive value).
\<close>

datatype jsvalue =
    Undefined
  | Null
  | Bool bool
  | Num number
  | Str string
  | Obj Date

text \<open>\<^verbatim>\<open>!v\<close> is \<open>\<not> truthy v\<close>.\<close>

fun truthy :: "jsvalue \<Rightarrow> bool" where
  "truthy Undefined = False"
| "truthy Null = False"
| "truthy (Bool b) = b"
| "truthy (Num (Finite x)) = (x \<noteq> 0)"
| "truthy (Num NaN) = False"
| "truthy (Num Infinity) = True"
| "truthy (Num Minus_Infinity) = True"
| "truthy (Str s) = (s \<noteq> [])"
| "truthy (Obj d) = True"

text \<open>
  A thrown value: an error object with its \<^verbatim>\<open>name\<close> and \<^verbatim>\<open>message\<close>, or anything
  else (\<^verbatim>\<open>e?.name\<close> is then undefined).
\<close>

datatype thrown = Err string string | Thrown_other

text \<open>\<^verbatim>\<open>e?.name\<close> and \<^verbatim>\<open>e.message\<close> as a template literal prints it.\<close>

fun thrown_name :: "thrown \<Rightarrow> string option" where
  "thrown_name (Err ename emessage) = Some ename"
| "thrown_name Thrown_other = None"

fun thrown_message :: "thrown \<Rightarrow> string" where
  "thrown_message (Err ename emessage) = emessage"
| "thrown_message Thrown_other = ''undefined''"

subsection \<open>Settings\<close>

text \<open>\<^verbatim>\<open>ignoreGlobalFolder?: string | string[]\<close> ("Union because of legacy").\<close>

datatype ignore_folders = Legacy string | Folders "string list"

record ToolKitSettings =
  mySetting :: string
  renaming :: bool
  dateFormat :: string
  headerUpdated :: string
  minMinutesBetweenSaves :: int
  ignoreGlobalFolder :: "ignore_folders option"

definition DEFAULT_SETTINGS :: ToolKitSettings where
  "DEFAULT_SETTINGS =
     \<lparr> mySetting = ''default'',
       renaming = False,
       dateFormat = ''yyyy-MM-dd'' @ [CHR 0x27] @ ''T'' @ [CHR 0x27] @ ''HH:mm'',
       headerUpdated = ''modified'',
       minMinutesBetweenSaves = 1,
       ignoreGlobalFolder = Some (Folders []) \<rparr>"

definition getIgnoreFolders :: "ToolKitSettings \<Rightarrow> string list" where
  "getIgnoreFolders settings =
     (case ignoreGlobalFolder settings of
        Some (Legacy s) \<Rightarrow> [s]
      | Some (Folders fs) \<Rightarrow> fs
      | None \<Rightarrow> [])"

subsection \<open>The date library\<close>

text \<open>
  \<^verbatim>\<open>format\<close> and \<^verbatim>\<open>parse\<close> of date-fns are a library of their own, with a pattern
  language that main.ts never looks into: they are parameters of the model. \<^verbatim>\<open>parse\<close>
  takes the input, the pattern and the reference date; both can throw (a \<^verbatim>\<open>RangeError\<close>
  on a pattern they reject), and \<^verbatim>\<open>parse\<close> can return an Invalid Date. Nothing is
  assumed about them; what parsing a formatted date gives is theirs to say.
\<close>

record date_fns =
  parse :: "string \<Rightarrow> string \<Rightarrow> Date \<Rightarrow> thrown + Date"
  format :: "Date \<Rightarrow> string \<Rightarrow> thrown + string"

text \<open>
  Modelled from the spec: \<^verbatim>\<open>add\<close> and \<^verbatim>\<open>isAfter\<close> of date-fns are not in the
  repository. The spec has \<^verbatim>\<open>nextUpdate = currentMTimeOnFile + minMinutesBetweenSaves
  minutes\<close> and "mTime is strictly after nextUpdate". \<^verbatim>\<open>add\<close> gets a duration that has
  only its \<^verbatim>\<open>minutes\<close>, here an integer; the sum goes through the Date constructor, and
  an Invalid Date stays one. No comparison with an Invalid Date holds.
\<close>

fun add :: "Date \<Rightarrow> int \<Rightarrow> Date" where
  "add (Date t) minutes = time_clip (Finite (of_int (t + minutes * 60 * 1000)))"
| "add Invalid_Date minutes = Invalid_Date"

fun isAfter :: "Date \<Rightarrow> Date \<Rightarrow> bool" where
  "isAfter (Date t) (Date u) = (u < t)"
| "isAfter _ _ = False"

subsection \<open>Files and the host\<close>

record Stats =
  mtime :: number

record TFile =
  path :: string
  name :: string
  extension :: string
  stat :: Stats

text \<open>\<^verbatim>\<open>isTFile\<close> tells a file from a folder by its \<^verbatim>\<open>stat\<close>.\<close>

datatype TAbstractFile = File TFile | Folder string

fun isTFile :: "TAbstractFile \<Rightarrow> bool" where
  "isTFile (File f) = True"
| "isTFile (Folder p) = False"

type_synonym frontmatter = "string \<rightharpoonup> jsvalue"

text \<open>
  The host, as far as \<^verbatim>\<open>handleFileChange\<close> meets it: the text of each file
  (\<^verbatim>\<open>vault.read\<close>), the metadata block of each file as the host parses it (the mapping, or
  the exception its parser throws), the notices shown to the user with their timeouts, the
  global \<^verbatim>\<open>ExcalidrawAutomate\<close> when that plugin runs, the clock (\<^verbatim>\<open>new Date()\<close>), the
  active file, and the link index \<^verbatim>\<open>metadataCache.resolvedLinks\<close>: for each document the
  paths it links to with their counts, both in the order in which \<^verbatim>\<open>Object.entries\<close>
  lists them.
\<close>

record Host =
  vault_read :: "TFile \<Rightarrow> string"
  metadata :: "string \<Rightarrow> thrown + frontmatter"
  notices :: "(string \<times> nat) list"
  ExcalidrawAutomate :: "(TFile \<Rightarrow> bool) option"
  clock :: Date
  getActiveFile :: "TFile option"
  resolvedLinks :: "(string \<times> (string \<times> nat) list) list"

text \<open>
  Modelled from the spec: \<^verbatim>\<open>fileManager.processFrontMatter\<close> is the host's, not in the
  repository. The spec has it as a scoped read-modify-write that "either applies the
  mutation atomically or applies nothing" and that "may fail with a structural-parse-error
  carrying a name and message". The callback mutates the block it is given; here it
  returns the new block, or what it throws.
\<close>

definition processFrontMatter ::
  "Host \<Rightarrow> TFile \<Rightarrow> (frontmatter \<Rightarrow> thrown + frontmatter) \<Rightarrow> (thrown + unit) \<times> Host" where
  "processFrontMatter host file fn =
     (case metadata host (path file) of
        Inl e \<Rightarrow> (Inl e, host)
      | Inr fm \<Rightarrow>
          (case fn fm of
             Inl e \<Rightarrow> (Inl e, host)
           | Inr fm' \<Rightarrow> (Inr (), host\<lparr>metadata := (metadata host)(path file := Inr fm')\<rparr>)))"

section \<open>The timestamp engine\<close>

subsection \<open>Parsing and formatting\<close>

text \<open>
  \<^verbatim>\<open>parseDate\<close>: a string goes to the library, and both an exception and an Invalid Date
  give \<^verbatim>\<open>undefined\<close> (\<open>None\<close>); anything else goes to the Date constructor, which
  converts it to a number first (\<^verbatim>\<open>undefined\<close> to NaN, \<^verbatim>\<open>null\<close> to 0, \<^verbatim>\<open>true\<close>
  to 1).
\<close>

fun parseDate :: "date_fns \<Rightarrow> Date \<Rightarrow> ToolKitSettings \<Rightarrow> jsvalue \<Rightarrow> Date option" where
  "parseDate lib now settings (Str input) =
     (case parse lib input (dateFormat settings) now of
        Inl e \<Rightarrow> None
      | Inr parsedDate \<Rightarrow> if parsedDate = Invalid_Date then None else Some parsedDate)"
| "parseDate lib now settings (Num n) = Some (time_clip n)"
| "parseDate lib now settings Undefined = Some Invalid_Date"
| "parseDate lib now settings Null = Some (Date 0)"
| "parseDate lib now settings (Bool b) = Some (Date (if b then 1 else 0))"
| "parseDate lib now settings (Obj d) = Some d"

definition formatDate :: "date_fns \<Rightarrow> ToolKitSettings \<Rightarrow> Date \<Rightarrow> thrown + string" where
  "formatDate lib settings input = format lib input (dateFormat settings)"

definition shouldUpdateValue :: "ToolKitSettings \<Rightarrow> Date \<Rightarrow> Date \<Rightarrow> bool" where
  "shouldUpdateValue settings currentMtime updateHeader =
     (let nextUpdate = add updateHeader (minMinutesBetweenSaves settings)
      in isAfter currentMtime nextUpdate)"

subsection \<open>The eligibility filter\<close>

text \<open>
  \<^verbatim>\<open>trim\<close> removes white space and line terminators at both ends; below 256 these are
  the code units 9 to 13, 32 and 160.
\<close>

definition is_white_space :: "char \<Rightarrow> bool" where
  "is_white_space c = (of_char c \<in> {9, 10, 11, 12, 13, 32, 160 :: nat})"

definition trim :: "string \<Rightarrow> string" where
  "trim s = rev (dropWhile is_white_space (rev (dropWhile is_white_space s)))"

definition startsWith :: "string \<Rightarrow> string \<Rightarrow> bool" where
  "startsWith s searchString = prefix searchString s"

definition isExcalidrawFile :: "Host \<Rightarrow> TFile \<Rightarrow> bool" where
  "isExcalidrawFile host file =
     (case ExcalidrawAutomate host of
        None \<Rightarrow> False
      | Some ea \<Rightarrow> ea file)"

text \<open>
  The checks in the order of the source. The test \<^verbatim>\<open>if (!ignores)\<close> is on an array,
  which is truthy even when empty, so its branch is never taken.
\<close>

definition shouldFileBeIgnored :: "ToolKitSettings \<Rightarrow> Host \<Rightarrow> TFile \<Rightarrow> bool" where
  "shouldFileBeIgnored settings host file =
     (if path file = [] then True
      else if extension file \<noteq> ''md'' then True
      else if name file = ''Canvas.md'' then True
      else
        let fileContent = trim (vault_read host file) in
        if length fileContent = 0 then True
        else if isExcalidrawFile host file then True
        else
          let ignores = getIgnoreFolders settings in
          list_ex (\<lambda>ignoreItem. startsWith (path file) ignoreItem) ignores)"

subsection \<open>The update\<close>

text \<open>
  The block that the host hands to the callback is a plain object, and the map holds its
  own properties. \<^verbatim>\<open>frontmatter[updatedKey]\<close> of a key that the block does not hold
  itself reads the property that every object inherits from \<^verbatim>\<open>Object.prototype\<close>, when the
  key is one of its twelve names: eleven functions and, under \<^verbatim>\<open>__proto__\<close>, the
  prototype itself. Each is a truthy object of which the Date constructor makes an Invalid
  Date. Of any other missing key the value is \<^verbatim>\<open>undefined\<close>.
\<close>

definition Object_prototype :: "string list" where
  "Object_prototype =
     [''constructor'', ''__defineGetter__'', ''__defineSetter__'', ''hasOwnProperty'',
      ''__lookupGetter__'', ''__lookupSetter__'', ''isPrototypeOf'', ''propertyIsEnumerable'',
      ''toString'', ''valueOf'', ''__proto__'', ''toLocaleString'']"

definition lookup :: "frontmatter \<Rightarrow> string \<Rightarrow> jsvalue" where
  "lookup fm key =
     (case fm key of
        Some v \<Rightarrow> v
      | None \<Rightarrow> if key \<in> set Object_prototype then Obj Invalid_Date else Undefined)"

text \<open>
  The callback given to \<^verbatim>\<open>processFrontMatter\<close>. \<^verbatim>\<open>formatDate\<close> is called before the
  assignment, so an exception of the library leaves the block as it was and goes to the
  caller. The assignment makes the key a property of the block itself; it is not reached
  for a key that is only inherited (\<open>inherited_key_never_written\<close> below).
\<close>

definition assign_formatted ::
  "date_fns \<Rightarrow> ToolKitSettings \<Rightarrow> string \<Rightarrow> Date \<Rightarrow> frontmatter \<Rightarrow> thrown + frontmatter" where
  "assign_formatted lib settings updatedKey mTime fm =
     (case formatDate lib settings mTime of
        Inl e \<Rightarrow> Inl e
      | Inr s \<Rightarrow> Inr (fm(updatedKey \<mapsto> Str s)))"

definition update_frontmatter ::
  "date_fns \<Rightarrow> Date \<Rightarrow> ToolKitSettings \<Rightarrow> TFile \<Rightarrow> frontmatter \<Rightarrow> thrown + frontmatter" where
  "update_frontmatter lib now settings file fm =
     (let updatedKey = headerUpdated settings in
      case parseDate lib now settings (Num (mtime (stat file))) of
        None \<Rightarrow> Inr fm
      | Some mTime \<Rightarrow>
          let currentMTimeOnFile = parseDate lib now settings (lookup fm updatedKey) in
          if \<not> truthy (lookup fm updatedKey) \<or> currentMTimeOnFile = None
          then assign_formatted lib settings updatedKey mTime fm
          else if shouldUpdateValue settings mTime (the currentMTimeOnFile)
          then assign_formatted lib settings updatedKey mTime fm
          else Inr fm)"

text \<open>
  The three outcomes. \<^verbatim>\<open>handleFileChange\<close> returns the outcome and the host as it has
  become; after the test \<^verbatim>\<open>isTFile\<close> the file is a \<^verbatim>\<open>TFile\<close>. The \<^verbatim>\<open>catch\<close> looks
  at the name of what was thrown, and lets everything but a \<^verbatim>\<open>YAMLParseError\<close> go.
\<close>

datatype status = Ok | Error thrown | Ignored

definition errorMessage :: "TFile \<Rightarrow> string \<Rightarrow> string" where
  "errorMessage file message =
     ''Update time on edit failed'' @ [CHR 0x0A, CHR 0x09]
     @ ''Malformed frontamtter on this file : '' @ path file @ [CHR 0x0A, CHR 0x09]
     @ [CHR 0x0A, CHR 0x09] @ message"

definition Notice :: "string \<Rightarrow> nat \<Rightarrow> Host \<Rightarrow> Host" where
  "Notice message duration host = host\<lparr>notices := notices host @ [(message, duration)]\<rparr>"

definition handleFileChange ::
  "date_fns \<Rightarrow> ToolKitSettings \<Rightarrow> Host \<Rightarrow> TAbstractFile \<Rightarrow> status \<times> Host" where
  "handleFileChange lib settings host file =
     (if \<not> isTFile file then (Ignored, host)
      else case file of
        Folder p \<Rightarrow> (Ignored, host)
      | File f \<Rightarrow>
          if shouldFileBeIgnored settings host f then (Ignored, host)
          else
            (case processFrontMatter host f (update_frontmatter lib (clock host) settings f) of
               (Inr u, host') \<Rightarrow> (Ok, host')
             | (Inl e, host') \<Rightarrow>
                 if thrown_name e = Some ''YAMLParseError''
                 then (Error e, Notice (errorMessage f (thrown_message e)) 4000 host')
                 else (Ok, host')))"

text \<open>The handler of the vault's \<^verbatim>\<open>modify\<close> event: only the active file is handled.\<close>

definition on_modify ::
  "date_fns \<Rightarrow> ToolKitSettings \<Rightarrow> Host \<Rightarrow> TAbstractFile \<Rightarrow> status option \<times> Host" where
  "on_modify lib settings host file =
     (if map_option File (getActiveFile host) = Some file
      then (case handleFileChange lib settings host file of (r, host') \<Rightarrow> (Some r, host'))
      else (None, host))"

section \<open>The link normalizer\<close>

subsection \<open>The index entry of the active document\<close>

text \<open>
  \<^verbatim>\<open>getFiles\<close> walks the index and compares each key with \<^verbatim>\<open>currentMd.path\<close>. The active
  file is cast to \<^verbatim>\<open>TFile\<close> unchecked: when there is none, the first comparison throws
  a \<^verbatim>\<open>TypeError\<close>, and an empty index gives \<^verbatim>\<open>null\<close> without any comparison.
\<close>

fun getFiles_entries ::
  "TFile option \<Rightarrow> (string \<times> (string \<times> nat) list) list \<Rightarrow> thrown + (string \<times> nat) list option" where
  "getFiles_entries currentMd [] = Inr None"
| "getFiles_entries None (entry # entries) =
     Inl (Err ''TypeError'' ''Cannot read properties of null'')"
| "getFiles_entries (Some currentMd) ((mdFile, links) # entries) =
     (if path currentMd = mdFile then Inr (Some links)
      else getFiles_entries (Some currentMd) entries)"

definition getFiles :: "Host \<Rightarrow> thrown + (string \<times> nat) list option" where
  "getFiles host = getFiles_entries (getActiveFile host) (resolvedLinks host)"

subsection \<open>The pattern\<close>

text \<open>
  The regular expression is \<^verbatim>\<open>/\!\[\[([^|\]]+)(?:\|([^\]]+))?\]\]/g\<close>: the three code units
  \<^verbatim>\<open>![[\<close>, a first group of one or more code units other than \<^verbatim>\<open>|\<close> and \<^verbatim>\<open>]\<close>, then
  optionally \<^verbatim>\<open>|\<close> and a second group of one or more code units other than \<^verbatim>\<open>]\<close>, then
  \<^verbatim>\<open>]]\<close>. A negated class also matches a line break.

  \<open>match_embed s\<close> is the match that starts at the first code unit of \<open>s\<close>, if there
  is one: the two groups (the second \<^verbatim>\<open>undefined\<close> when it took no part) and the text
  after the match. Both groups are greedy, and in a match each is followed by a code unit
  outside its class, so each is the longest run of its class and backtracking finds
  nothing else (\<open>match_embed_iff\<close> below).
\<close>

definition match_embed :: "string \<Rightarrow> (string \<times> string option \<times> string) option" where
  "match_embed s =
     (if \<not> prefix ''![['' s then None
      else
        let url = takeWhile (\<lambda>c. c \<noteq> CHR ''|'' \<and> c \<noteq> CHR '']'') (drop 3 s);
            s1 = dropWhile (\<lambda>c. c \<noteq> CHR ''|'' \<and> c \<noteq> CHR '']'') (drop 3 s)
        in
          if url = [] then None
          else if prefix ''|'' s1 then
            (let alt = takeWhile (\<lambda>c. c \<noteq> CHR '']'') (drop 1 s1);
                 s2 = dropWhile (\<lambda>c. c \<noteq> CHR '']'') (drop 1 s1)
             in if alt \<noteq> [] \<and> prefix '']]'' s2 then Some (url, Some alt, drop 2 s2) else None)
          else if prefix '']]'' s1 then Some (url, None, drop 2 s1)
          else None)"

subsection \<open>The replacement\<close>

definition string_includes :: "string \<Rightarrow> string \<Rightarrow> bool" where
  "string_includes s searchString = sublist searchString s"

text \<open>The \<^verbatim>\<open>for\<close> loop over the entries of the index entry, with its \<^verbatim>\<open>break\<close>.\<close>

fun new_url :: "(string \<times> nat) list \<Rightarrow> string \<Rightarrow> string" where
  "new_url [] url = url"
| "new_url ((filePath, nr) # entries) url =
     (if string_includes filePath url then filePath else new_url entries url)"

text \<open>\<^verbatim>\<open>replace\<close> with a string as its pattern replaces the first occurrence only.\<close>

fun replace_first :: "string \<Rightarrow> char \<Rightarrow> string \<Rightarrow> string" where
  "replace_first [] pattern replacement = []"
| "replace_first (c # cs) pattern replacement =
     (if c = pattern then replacement @ cs else c # replace_first cs pattern replacement)"

text \<open>The function given to \<^verbatim>\<open>replace\<close>; \<^verbatim>\<open>!alt\<close> holds of \<^verbatim>\<open>undefined\<close> and of \<^verbatim>\<open>""\<close>.\<close>

definition replacer :: "(string \<times> nat) list \<Rightarrow> string \<Rightarrow> string option \<Rightarrow> string" where
  "replacer files url alt =
     (let alt' = (case alt of None \<Rightarrow> [] | Some a \<Rightarrow> a)
      in ''!['' @ alt' @ '']('' @ replace_first (new_url files url) CHR '' '' ''%20'' @ '')'')"

text \<open>
  \<^verbatim>\<open>docContent.replace\<close> with a global pattern: where a match starts it is replaced and
  the scan goes on after it; elsewhere the code unit is kept and the scan moves by one.
\<close>

function replace_embeds :: "(string \<times> nat) list \<Rightarrow> string \<Rightarrow> string" where
  "replace_embeds files [] = []"
| "replace_embeds files (c # cs) =
     (case match_embed (c # cs) of
        Some (url, alt, rest) \<Rightarrow> replacer files url alt @ replace_embeds files rest
      | None \<Rightarrow> c # replace_embeds files cs)"
  by pat_completeness auto
termination
proof (relation "measure (\<lambda>(files, s). length s)")
  fix files :: "(string \<times> nat) list" and c cs x2 url y alt rest
  assume m: "match_embed (c # cs) = Some x2" and x: "(url, y) = x2" and y: "(alt, rest) = y"
  have d: "length (dropWhile P xs) \<le> length xs" for P and xs :: string
    by (rule length_dropWhile_le)
  let ?s1 = "dropWhile (\<lambda>c. c \<noteq> CHR ''|'' \<and> c \<noteq> CHR '']'') (drop 3 (c # cs))"
  let ?s2 = "dropWhile (\<lambda>c. c \<noteq> CHR '']'') (drop 1 ?s1)"
  have s1: "length ?s1 \<le> length cs"
    using d[of "\<lambda>c. c \<noteq> CHR ''|'' \<and> c \<noteq> CHR '']''" "drop 3 (c # cs)"] by simp
  have s2: "length ?s2 \<le> length cs"
    using d[of "\<lambda>c. c \<noteq> CHR '']''" "drop 1 ?s1"] s1 by simp
  from m x[symmetric] y[symmetric] have "rest = drop 2 ?s1 \<or> rest = drop 2 ?s2"
    by (simp add: match_embed_def Let_def split: if_splits)
  with s1 s2 have "length rest \<le> length cs" by auto
  then show "((files, rest), (files, c # cs)) \<in> measure (\<lambda>(files, s). length s)" by simp
qed simp_all

subsection \<open>The command\<close>

record EditorPosition =
  line :: nat
  ch :: nat

text \<open>
  The editor: its text, its cursor, the range last scrolled into view, and the texts that
  \<^verbatim>\<open>setValue\<close> has replaced, the latest first (what an undo brings back).
\<close>

record Editor =
  getValue :: string
  getCursor :: EditorPosition
  inView :: "(EditorPosition \<times> EditorPosition) option"
  replaced :: "string list"

definition setValue :: "string \<Rightarrow> Editor \<Rightarrow> Editor" where
  "setValue content editor =
     editor\<lparr>getValue := content, replaced := getValue editor # replaced editor\<rparr>"

definition setCursor :: "EditorPosition \<Rightarrow> Editor \<Rightarrow> Editor" where
  "setCursor pos editor = editor\<lparr>getCursor := pos\<rparr>"

definition scrollIntoView :: "EditorPosition \<times> EditorPosition \<Rightarrow> Editor \<Rightarrow> Editor" where
  "scrollIntoView from_to editor = editor\<lparr>inView := Some from_to\<rparr>"

definition editorCallback :: "Host \<Rightarrow> Editor \<Rightarrow> thrown + Editor" where
  "editorCallback host editor =
     (let currentLine = line (getCursor editor);
          docContent = getValue editor
      in case getFiles host of
           Inl e \<Rightarrow> Inl e
         | Inr files \<Rightarrow>
             let editor' = (case files of
                              None \<Rightarrow> editor
                            | Some fs \<Rightarrow> setValue (replace_embeds fs docContent) editor)
             in Inr (scrollIntoView (\<lparr>line = currentLine, ch = 0\<rparr>, \<lparr>line = currentLine, ch = 0\<rparr>)
                       (setCursor \<lparr>line = currentLine, ch = 0\<rparr> editor')))"

section \<open>The examples of the spec as values\<close>

text \<open>
  The spec's example E2E-3 has the key \<^verbatim>\<open>updated\<close>, the pattern
  \<^verbatim>\<open>yyyy-MM-dd'T'HH:mm\<close>, a window of 5 minutes and the stored value
  \<^verbatim>\<open>2024-01-01T10:00\<close>. \<open>e2e_lib\<close> is a date library that knows the three instants of
  that example (read in UTC). Like date-fns it rejects the pattern \<^verbatim>\<open>n\<close>, a letter that
  is no token of the pattern language, in \<^verbatim>\<open>parse\<close> and in \<^verbatim>\<open>format\<close> alike; every
  other string parses to an Invalid Date, and no other date is formatted.
\<close>

definition e2e_lib :: date_fns where
  "e2e_lib =
     \<lparr> parse = (\<lambda>input pattern reference.
         if pattern = ''n'' then Inl (Err ''RangeError'' ''Format string contains an unescaped latin alphabet character'')
         else if input = ''2024-01-01T10:00'' then Inr (Date 1704103200000)
         else Inr Invalid_Date),
       format = (\<lambda>date pattern.
         if pattern = ''n'' then Inl (Err ''RangeError'' ''Format string contains an unescaped latin alphabet character'')
         else if date = Date 1704103440000 then Inr ''2024-01-01T10:04''
         else if date = Date 1704103560000 then Inr ''2024-01-01T10:06''
         else Inl (Err ''RangeError'' ''Invalid time value'')) \<rparr>"

definition e2e_settings :: ToolKitSettings where
  "e2e_settings = DEFAULT_SETTINGS\<lparr>headerUpdated := ''updated'', minMinutesBetweenSaves := 5\<rparr>"

definition e2e_file :: "number \<Rightarrow> TFile" where
  "e2e_file t =
     \<lparr> path = ''notes/a.md'', name = ''a.md'', extension = ''md'', stat = \<lparr> mtime = t \<rparr> \<rparr>"

text \<open>A host with one text for every file and one metadata block for every path.\<close>

definition e2e_host :: "string \<Rightarrow> (thrown + frontmatter) \<Rightarrow> Host" where
  "e2e_host content block =
     \<lparr> vault_read = (\<lambda>file. content),
       metadata = (\<lambda>p. block),
       notices = [],
       ExcalidrawAutomate = None,
       clock = Date 1704103560000,
       getActiveFile = Some (e2e_file (Finite 1704103560000)),
       resolvedLinks = [(''notes/a.md'', [(''img 1.png'', 1)])] \<rparr>"

section \<open>Properties\<close>

subsection \<open>Dates\<close>

lemma to_integer_of_int [simp]: "to_integer (of_int t) = t"
  by (simp add: to_integer_def)

lemma time_clip_range: "time_clip n = Date t \<Longrightarrow> \<bar>t\<bar> \<le> 8640000000000000"
proof (cases n)
  case (Finite x)
  assume "time_clip n = Date t"
  with Finite have b: "\<bar>x\<bar> \<le> 8640000000000000" and t: "t = to_integer x"
    by (auto split: if_splits)
  show ?thesis
  proof (cases "0 \<le> x")
    case True
    from b True have "x \<le> of_int 8640000000000000" by simp
    then have "\<lfloor>x\<rfloor> \<le> 8640000000000000" by (metis floor_mono floor_of_int)
    moreover from True have "0 \<le> \<lfloor>x\<rfloor>" by simp
    moreover from True t have "t = \<lfloor>x\<rfloor>" by (simp add: to_integer_def)
    ultimately show ?thesis by linarith
  next
    case False
    from b False have "of_int (- 8640000000000000) \<le> x" by simp
    then have "- 8640000000000000 \<le> \<lceil>x\<rceil>" by (metis ceiling_mono ceiling_of_int)
    moreover from False have "\<lceil>x\<rceil> \<le> 0" by (simp add: ceiling_le_iff)
    moreover from False t have "t = \<lceil>x\<rceil>" by (simp add: to_integer_def)
    ultimately show ?thesis by linarith
  qed
qed simp_all

lemma time_clip_of_int:
  "time_clip (Finite (of_int k)) = (if \<bar>k\<bar> \<le> 8640000000000000 then Date k else Invalid_Date)"
proof -
  have "\<bar>of_int k :: rat\<bar> \<le> of_int 8640000000000000 \<longleftrightarrow> \<bar>k\<bar> \<le> 8640000000000000"
    unfolding of_int_abs[symmetric] by (rule of_int_le_iff)
  then show ?thesis by simp
qed

text \<open>Adding minutes leaves the range of time values only at its ends.\<close>

lemma add_minutes:
  "add (Date t) m =
     (if \<bar>t + m * 60000\<bar> \<le> 8640000000000000 then Date (t + m * 60000) else Invalid_Date)"
proof -
  have "m * 60 * 1000 = m * 60000" by simp
  then show ?thesis by (simp only: add.simps time_clip_of_int)
qed

lemma shouldUpdateValue_iff:
  assumes "\<bar>t0\<bar> \<le> 8640000000000000" and "\<bar>t1\<bar> \<le> 8640000000000000"
    and "0 \<le> minMinutesBetweenSaves settings"
  shows "shouldUpdateValue settings (Date t1) (Date t0)
           \<longleftrightarrow> t0 + minMinutesBetweenSaves settings * 60000 < t1"
proof -
  let ?next = "t0 + minMinutesBetweenSaves settings * 60000"
  from assms(1,3) have low: "- 8640000000000000 \<le> ?next" by simp
  show ?thesis
  proof (cases "?next \<le> 8640000000000000")
    case True
    with low have "\<bar>?next\<bar> \<le> 8640000000000000" by simp
    then show ?thesis by (simp add: shouldUpdateValue_def add_minutes del: add.simps)
  next
    case False
    then have "\<not> \<bar>?next\<bar> \<le> 8640000000000000" by simp
    moreover from False assms(2) have "\<not> ?next < t1" by simp
    ultimately show ?thesis by (simp add: shouldUpdateValue_def add_minutes del: add.simps)
  qed
qed

text \<open>An Invalid Date on either side never asks for an update.\<close>

lemma shouldUpdateValue_Invalid:
  "\<not> shouldUpdateValue settings Invalid_Date d" "\<not> shouldUpdateValue settings d Invalid_Date"
  by (simp_all add: shouldUpdateValue_def)

subsection \<open>The callback\<close>

lemma update_frontmatter_debounce:
  assumes "truthy (lookup fm (headerUpdated settings))"
    and "parseDate lib now settings (lookup fm (headerUpdated settings)) = Some (Date t0)"
    and "\<bar>t0\<bar> \<le> 8640000000000000"
    and "time_clip (mtime (stat file)) = Date t1"
    and "0 \<le> minMinutesBetweenSaves settings"
    and "formatDate lib settings (Date t1) = Inr s"
  shows "update_frontmatter lib now settings file fm =
           Inr (if t0 + minMinutesBetweenSaves settings * 60000 < t1
                then fm(headerUpdated settings \<mapsto> Str s) else fm)"
proof -
  from assms(4) have "\<bar>t1\<bar> \<le> 8640000000000000" by (rule time_clip_range)
  from shouldUpdateValue_iff[OF assms(3) this assms(5)] assms(1,2,4,6) show ?thesis
    by (simp add: update_frontmatter_def assign_formatted_def Let_def)
qed

lemma update_frontmatter_first_write:
  assumes "\<not> truthy (lookup fm (headerUpdated settings))
           \<or> parseDate lib now settings (lookup fm (headerUpdated settings)) = None"
    and "formatDate lib settings (time_clip (mtime (stat file))) = Inr s"
  shows "update_frontmatter lib now settings file fm = Inr (fm(headerUpdated settings \<mapsto> Str s))"
  using assms by (auto simp: update_frontmatter_def assign_formatted_def Let_def)

text \<open>When \<^verbatim>\<open>formatDate\<close> throws in the first write, the callback throws the same.\<close>

lemma update_frontmatter_first_write_throws:
  assumes "\<not> truthy (lookup fm (headerUpdated settings))
           \<or> parseDate lib now settings (lookup fm (headerUpdated settings)) = None"
    and "formatDate lib settings (time_clip (mtime (stat file))) = Inl e"
  shows "update_frontmatter lib now settings file fm = Inl e"
  using assms by (auto simp: update_frontmatter_def assign_formatted_def Let_def)

text \<open>A missing key reads as \<^verbatim>\<open>undefined\<close> unless every object inherits it.\<close>

lemma lookup_absent:
  "fm key = None \<Longrightarrow> key \<notin> set Object_prototype \<Longrightarrow> lookup fm key = Undefined"
  by (simp add: lookup_def)

lemma lookup_inherited:
  "fm key = None \<Longrightarrow> key \<in> set Object_prototype \<Longrightarrow> lookup fm key = Obj Invalid_Date"
  by (simp add: lookup_def)

lemma inherited_key_never_written:
  assumes "fm (headerUpdated settings) = None" and "headerUpdated settings \<in> set Object_prototype"
  shows "update_frontmatter lib now settings file fm = Inr fm"
  using assms
  by (simp add: update_frontmatter_def Let_def lookup_inherited shouldUpdateValue_Invalid)

text \<open>The window is read by \<^verbatim>\<open>shouldUpdateValue\<close> only.\<close>

lemma window_irrelevant:
  "shouldFileBeIgnored (settings\<lparr>minMinutesBetweenSaves := m\<rparr>) host file
     = shouldFileBeIgnored settings host file"
  "parseDate lib now (settings\<lparr>minMinutesBetweenSaves := m\<rparr>) v = parseDate lib now settings v"
  "formatDate lib (settings\<lparr>minMinutesBetweenSaves := m\<rparr>) d = formatDate lib settings d"
  by (simp add: shouldFileBeIgnored_def getIgnoreFolders_def, cases v, simp_all add: formatDate_def)

text \<open>The callback changes no key but \<^verbatim>\<open>headerUpdated\<close>.\<close>

lemma update_frontmatter_other_keys:
  assumes "update_frontmatter lib now settings file fm = Inr fm'" and "key \<noteq> headerUpdated settings"
  shows "fm' key = fm key"
  using assms
  by (auto simp: update_frontmatter_def assign_formatted_def Let_def split: if_splits sum.splits)

subsection \<open>The filter\<close>

lemma shouldFileBeIgnored_iff:
  "shouldFileBeIgnored settings host file \<longleftrightarrow>
     path file = [] \<or> extension file \<noteq> ''md'' \<or> name file = ''Canvas.md''
     \<or> trim (vault_read host file) = [] \<or> isExcalidrawFile host file
     \<or> (\<exists>ignoreItem \<in> set (getIgnoreFolders settings). startsWith (path file) ignoreItem)"
  by (auto simp: shouldFileBeIgnored_def Let_def list_ex_iff)

text \<open>The text is trimmed to nothing exactly when all of it is white space.\<close>

lemma trim_empty_iff: "trim s = [] \<longleftrightarrow> (\<forall>c \<in> set s. is_white_space c)"
proof
  assume "trim s = []"
  then have a: "\<forall>c \<in> set (dropWhile is_white_space s). is_white_space c"
    by (simp add: trim_def dropWhile_eq_Nil_conv)
  have "dropWhile is_white_space s = []"
  proof (rule ccontr)
    assume n: "dropWhile is_white_space s \<noteq> []"
    then have "\<not> is_white_space (hd (dropWhile is_white_space s))" by (rule hd_dropWhile)
    with a n show False by simp
  qed
  then show "\<forall>c \<in> set s. is_white_space c" by (simp add: dropWhile_eq_Nil_conv)
next
  assume "\<forall>c \<in> set s. is_white_space c"
  then have d: "dropWhile is_white_space s = []" by (simp add: dropWhile_eq_Nil_conv)
  show "trim s = []" unfolding trim_def d by simp
qed

subsection \<open>The engine\<close>

lemma processFrontMatter_fails:
  "fst (processFrontMatter host file fn) = Inl e \<Longrightarrow> snd (processFrontMatter host file fn) = host"
  by (auto simp: processFrontMatter_def split: sum.splits)

lemma handleFileChange_applied:
  assumes "\<not> shouldFileBeIgnored settings host file"
    and "metadata host (path file) = Inr fm"
    and "update_frontmatter lib (clock host) settings file fm = Inr fm'"
  shows "handleFileChange lib settings host (File file)
           = (Ok, host\<lparr>metadata := (metadata host)(path file := Inr fm')\<rparr>)"
  using assms by (simp add: handleFileChange_def processFrontMatter_def)

lemma handleFileChange_callback_throws:
  assumes "\<not> shouldFileBeIgnored settings host file"
    and "metadata host (path file) = Inr fm"
    and "update_frontmatter lib (clock host) settings file fm = Inl e"
  shows "handleFileChange lib settings host (File file) =
           (if thrown_name e = Some ''YAMLParseError''
            then (Error e, Notice (errorMessage file (thrown_message e)) 4000 host)
            else (Ok, host))"
  using assms by (simp add: handleFileChange_def processFrontMatter_def)

lemma e2e_not_ignored:
  "\<not> shouldFileBeIgnored e2e_settings (e2e_host ''some text'' block) (e2e_file t)"
  "\<not> shouldFileBeIgnored (e2e_settings\<lparr>dateFormat := pattern\<rparr>)
       (e2e_host ''some text'' block) (e2e_file t)"
  by (simp_all add: shouldFileBeIgnored_def e2e_settings_def e2e_host_def e2e_file_def
      DEFAULT_SETTINGS_def getIgnoreFolders_def isExcalidrawFile_def trim_def is_white_space_def)

subsection \<open>The pattern and the scan\<close>

lemma takeWhile_stop:
  assumes "\<forall>c \<in> set xs. P c" and "ys = [] \<or> \<not> P (hd ys)"
  shows "takeWhile P (xs @ ys) = xs" and "dropWhile P (xs @ ys) = ys"
proof -
  from assms(2) have "takeWhile P ys = []" and "dropWhile P ys = ys"
    by (cases ys; simp)+
  with assms(1) show "takeWhile P (xs @ ys) = xs" and "dropWhile P (xs @ ys) = ys"
    by (simp_all add: dropWhile_append2)
qed

text \<open>An embed without alias, and one with an alias, is matched where it starts.\<close>

lemma match_embed_plain:
  assumes "ref \<noteq> []" and "\<forall>c \<in> set ref. c \<noteq> CHR ''|'' \<and> c \<noteq> CHR '']''"
  shows "match_embed (''![['' @ ref @ '']]'' @ post) = Some (ref, None, post)"
proof -
  let ?P = "\<lambda>c. c \<noteq> CHR ''|'' \<and> c \<noteq> CHR '']''"
  have "takeWhile ?P (ref @ '']]'' @ post) = ref" and "dropWhile ?P (ref @ '']]'' @ post) = '']]'' @ post"
    using takeWhile_stop[of ref ?P "'']]'' @ post"] assms(2) by simp_all
  with assms(1) show ?thesis
    by (simp add: match_embed_def)
qed

lemma match_embed_alias:
  assumes "ref \<noteq> []" and "\<forall>c \<in> set ref. c \<noteq> CHR ''|'' \<and> c \<noteq> CHR '']''"
    and "alt \<noteq> []" and "\<forall>c \<in> set alt. c \<noteq> CHR '']''"
  shows "match_embed (''![['' @ ref @ ''|'' @ alt @ '']]'' @ post) = Some (ref, Some alt, post)"
proof -
  let ?P = "\<lambda>c. c \<noteq> CHR ''|'' \<and> c \<noteq> CHR '']''"
  let ?Q = "\<lambda>c. c \<noteq> CHR '']''"
  have "takeWhile ?P (ref @ ''|'' @ alt @ '']]'' @ post) = ref"
    and "dropWhile ?P (ref @ ''|'' @ alt @ '']]'' @ post) = ''|'' @ alt @ '']]'' @ post"
    using takeWhile_stop[of ref ?P "''|'' @ alt @ '']]'' @ post"] assms(2) by simp_all
  moreover have "takeWhile ?Q (alt @ '']]'' @ post) = alt"
    and "dropWhile ?Q (alt @ '']]'' @ post) = '']]'' @ post"
    using takeWhile_stop[of alt ?Q "'']]'' @ post"] assms(4) by simp_all
  ultimately show ?thesis using assms(1,3)
    by (simp add: match_embed_def)
qed

text \<open>
  \<open>match_embed\<close> finds exactly the texts of the pattern: the result is a match as the
  regular expression describes it, and every such reading of the text is the result. So a
  text has at most one match at its start, and the order in which an engine tries the
  alternatives does not show.
\<close>

lemma prefix_drop:
  "prefix ''![['' s \<Longrightarrow> s = ''![['' @ drop 3 s"
  "prefix ''|'' s \<Longrightarrow> s = ''|'' @ drop 1 s"
  "prefix '']]'' s \<Longrightarrow> s = '']]'' @ drop 2 s"
  by (auto simp: prefix_def)

lemma match_embed_sound:
  assumes "match_embed s = Some (url, alt, rest)"
  shows "url \<noteq> [] \<and> (\<forall>c \<in> set url. c \<noteq> CHR ''|'' \<and> c \<noteq> CHR '']'')
     \<and> (case alt of
          None \<Rightarrow> s = ''![['' @ url @ '']]'' @ rest
        | Some a \<Rightarrow> a \<noteq> [] \<and> (\<forall>c \<in> set a. c \<noteq> CHR '']'')
                    \<and> s = ''![['' @ url @ ''|'' @ a @ '']]'' @ rest)"
proof -
  define P where "P = (\<lambda>c. c \<noteq> CHR ''|'' \<and> c \<noteq> CHR '']'')"
  define Q where "Q = (\<lambda>c. c \<noteq> CHR '']'')"
  define t where "t = drop 3 s"
  define u where "u = takeWhile P t"
  define s1 where "s1 = dropWhile P t"
  define t1 where "t1 = drop 1 s1"
  define a where "a = takeWhile Q t1"
  define s2 where "s2 = dropWhile Q t1"
  define r1 where "r1 = drop 2 s1"
  define r2 where "r2 = drop 2 s2"
  define b0 where "b0 = prefix ''![['' s"
  define b1 where "b1 = prefix ''|'' s1"
  define b2 where "b2 = prefix '']]'' s2"
  define b3 where "b3 = prefix '']]'' s1"
  have "match_embed s =
     (if \<not> b0 then None
      else if u = [] then None
      else if b1 then (if a \<noteq> [] \<and> b2 then Some (u, Some a, r2) else None)
      else if b3 then Some (u, None, r1)
      else None)"
    unfolding match_embed_def Let_def P_def Q_def t_def u_def s1_def t1_def a_def s2_def
      r1_def r2_def b0_def b1_def b2_def b3_def by (rule refl)
  with assms have cases: "b0 \<and> u \<noteq> [] \<and>
      (b1 \<and> a \<noteq> [] \<and> b2 \<and> url = u \<and> alt = Some a \<and> rest = r2
       \<or> \<not> b1 \<and> b3 \<and> url = u \<and> alt = None \<and> rest = r1)"
    by (simp split: if_splits)
  then have "prefix ''![['' s" by (simp add: b0_def)
  then have s: "s = ''![['' @ t" unfolding t_def by (rule prefix_drop)
  have t: "t = u @ s1" by (simp add: u_def s1_def)
  have cu: "\<forall>c \<in> set u. c \<noteq> CHR ''|'' \<and> c \<noteq> CHR '']''"
    unfolding u_def P_def by (auto dest: set_takeWhileD)
  have ca: "\<forall>c \<in> set a. c \<noteq> CHR '']''"
    unfolding a_def Q_def by (auto dest: set_takeWhileD)
  from cases consider
      (aliased) "b1" "a \<noteq> []" "b2" "url = u" "alt = Some a" "rest = r2"
    | (plain) "b3" "url = u" "alt = None" "rest = r1"
    by blast
  then show ?thesis
  proof cases
    case aliased
    from aliased(1) have "prefix ''|'' s1" by (simp add: b1_def)
    then have e1: "s1 = ''|'' @ t1" unfolding t1_def by (rule prefix_drop)
    have e2: "t1 = a @ s2" by (simp add: a_def s2_def)
    from aliased(3) have "prefix '']]'' s2" by (simp add: b2_def)
    then have e3: "s2 = '']]'' @ r2" unfolding r2_def by (rule prefix_drop)
    have "s = ''![['' @ u @ ''|'' @ a @ '']]'' @ r2"
      by (simp only: s t e1 e2 e3)
    with aliased cases cu ca show ?thesis by simp
  next
    case plain
    from plain(1) have "prefix '']]'' s1" by (simp add: b3_def)
    then have e1: "s1 = '']]'' @ r1" unfolding r1_def by (rule prefix_drop)
    have "s = ''![['' @ u @ '']]'' @ r1"
      by (simp only: s t e1)
    with plain cases cu show ?thesis by simp
  qed
qed

lemma match_embed_iff:
  "match_embed s = Some (url, alt, rest) \<longleftrightarrow>
     url \<noteq> [] \<and> (\<forall>c \<in> set url. c \<noteq> CHR ''|'' \<and> c \<noteq> CHR '']'')
     \<and> (case alt of
          None \<Rightarrow> s = ''![['' @ url @ '']]'' @ rest
        | Some a \<Rightarrow> a \<noteq> [] \<and> (\<forall>c \<in> set a. c \<noteq> CHR '']'')
                    \<and> s = ''![['' @ url @ ''|'' @ a @ '']]'' @ rest)"
  (is "?L \<longleftrightarrow> ?R")
proof
  assume ?L
  then show ?R by (rule match_embed_sound)
next
  assume r: ?R
  show ?L
  proof (cases alt)
    case None
    with r have "s = ''![['' @ url @ '']]'' @ rest" by simp
    moreover from r have "match_embed (''![['' @ url @ '']]'' @ rest) = Some (url, None, rest)"
      by (intro match_embed_plain) simp_all
    ultimately show ?thesis using None by (simp only:)
  next
    case (Some a)
    with r have "s = ''![['' @ url @ ''|'' @ a @ '']]'' @ rest" by simp
    moreover from r Some
    have "match_embed (''![['' @ url @ ''|'' @ a @ '']]'' @ rest) = Some (url, Some a, rest)"
      by (intro match_embed_alias) simp_all
    ultimately show ?thesis using Some by (simp only:)
  qed
qed

lemma replace_embeds_match:
  "match_embed s = Some (url, alt, rest)
   \<Longrightarrow> replace_embeds files s = replacer files url alt @ replace_embeds files rest"
  by (cases s) (simp_all add: match_embed_def)

text \<open>The library's notion behind \<^verbatim>\<open>includes\<close>, and the loop as a search.\<close>

lemma string_includes_iff: "string_includes s u \<longleftrightarrow> (\<exists>a b. s = a @ u @ b)"
  by (simp add: string_includes_def sublist_def)

lemma new_url_find:
  "new_url files url =
     (case find (\<lambda>(filePath, nr). string_includes filePath url) files of
        None \<Rightarrow> url
      | Some (filePath, nr) \<Rightarrow> filePath)"
  by (induction files url rule: new_url.induct) simp_all

lemma replace_first_space:
  "replace_first s CHR '' '' ''%20'' =
     (if CHR '' '' \<in> set s
      then takeWhile (\<lambda>c. c \<noteq> CHR '' '') s @ ''%20'' @ tl (dropWhile (\<lambda>c. c \<noteq> CHR '' '') s)
      else s)"
  by (induction s) auto

subsection \<open>The index\<close>

lemma getFiles_entries_absent:
  "\<forall>(mdFile, links) \<in> set entries. mdFile \<noteq> path currentMd
   \<Longrightarrow> getFiles_entries (Some currentMd) entries = Inr None"
  by (induction entries) auto

lemma getFiles_entries_present:
  "getFiles_entries (Some currentMd) entries = Inr (Some links)
   \<Longrightarrow> (path currentMd, links) \<in> set entries"
  by (induction entries) (auto split: if_splits)

subsection \<open>Matches and the text around them\<close>

text \<open>The text that a match covers.\<close>

lemma match_embed_covers:
  assumes "match_embed s = Some (url, alt, rest)"
  shows "\<exists>m. m \<noteq> [] \<and> s = m @ rest \<and> (\<forall>t r. match_embed t = Some (url, alt, r) \<longleftrightarrow> t = m @ r)"
proof (cases alt)
  case None
  with assms have c: "url \<noteq> []" "\<forall>c \<in> set url. c \<noteq> CHR ''|'' \<and> c \<noteq> CHR '']''"
    and s: "s = ''![['' @ url @ '']]'' @ rest"
    by (simp_all add: match_embed_iff)
  have "match_embed t = Some (url, alt, r) \<longleftrightarrow> t = (''![['' @ url @ '']]'') @ r" for t r
    using c None by (simp add: match_embed_iff)
  moreover from s have "s = (''![['' @ url @ '']]'') @ rest" by simp
  ultimately show ?thesis by blast
next
  case (Some a)
  with assms have c: "url \<noteq> []" "\<forall>c \<in> set url. c \<noteq> CHR ''|'' \<and> c \<noteq> CHR '']''"
    "a \<noteq> []" "\<forall>c \<in> set a. c \<noteq> CHR '']''"
    and s: "s = ''![['' @ url @ ''|'' @ a @ '']]'' @ rest"
    by (simp_all add: match_embed_iff)
  have "match_embed t = Some (url, alt, r) \<longleftrightarrow> t = (''![['' @ url @ ''|'' @ a @ '']]'') @ r" for t r
    using c Some by (simp add: match_embed_iff)
  moreover from s have "s = (''![['' @ url @ ''|'' @ a @ '']]'') @ rest" by simp
  ultimately show ?thesis by blast
qed

text \<open>A match stays one when text is added after it.\<close>

lemma match_embed_append:
  assumes "match_embed p = Some (url, alt, r)"
  shows "match_embed (p @ y) = Some (url, alt, r @ y)"
proof -
  from match_embed_covers[OF assms] obtain m
    where "p = m @ r" and "\<And>t r. match_embed t = Some (url, alt, r) \<longleftrightarrow> t = m @ r"
    by blast
  then show ?thesis by simp
qed

text \<open>A match that ends before the added text is a match without it.\<close>

lemma match_embed_within:
  assumes "match_embed (p @ y) = Some (url, alt, rest)" and "length y \<le> length rest"
  shows "\<exists>r. rest = r @ y \<and> match_embed p = Some (url, alt, r) \<and> length r < length p"
proof -
  from match_embed_covers[OF assms(1)] obtain m
    where m: "m \<noteq> []" "p @ y = m @ rest"
      and all: "\<And>t r. match_embed t = Some (url, alt, r) \<longleftrightarrow> t = m @ r"
    by blast
  from m(2) assms(2) obtain r where r: "rest = r @ y" "p = m @ r"
    by (auto simp: append_eq_append_conv2)
  with all[of p r] m(1) show ?thesis by simp
qed

text \<open>
  The scan of a text that is cut where no match crosses the cut is the scan of the two
  parts.
\<close>

lemma replace_embeds_append:
  assumes "\<forall>i < length pre. \<forall>url alt rest.
             match_embed (drop i pre @ s) = Some (url, alt, rest) \<longrightarrow> length s \<le> length rest"
  shows "replace_embeds files (pre @ s) = replace_embeds files pre @ replace_embeds files s"
  using assms
proof (induction "length pre" arbitrary: pre rule: less_induct)
  case less
  show ?case
  proof (cases pre)
    case Nil
    then show ?thesis by simp
  next
    case (Cons c cs)
    show ?thesis
    proof (cases "match_embed (pre @ s)")
      case None
      have "match_embed pre = None"
      proof (rule ccontr)
        assume "match_embed pre \<noteq> None"
        then obtain url alt r where "match_embed pre = Some (url, alt, r)" by auto
        from match_embed_append[OF this, of s] None show False by simp
      qed
      moreover have "replace_embeds files (cs @ s) = replace_embeds files cs @ replace_embeds files s"
      proof (rule less.hyps)
        show "length cs < length pre" using Cons by simp
        show "\<forall>i < length cs. \<forall>url alt rest.
                match_embed (drop i cs @ s) = Some (url, alt, rest) \<longrightarrow> length s \<le> length rest"
        proof (intro allI impI)
          fix i url alt rest
          assume "i < length cs" and "match_embed (drop i cs @ s) = Some (url, alt, rest)"
          with less.prems[rule_format, of "Suc i" url alt rest] Cons
          show "length s \<le> length rest" by simp
        qed
      qed
      ultimately show ?thesis using None Cons by simp
    next
      case (Some x)
      then obtain url alt rest where x: "match_embed (pre @ s) = Some (url, alt, rest)"
        by (cases x) auto
      from less.prems[rule_format, of 0 url alt rest] x Cons have "length s \<le> length rest"
        by simp
      from match_embed_within[OF x this] obtain r
        where r: "rest = r @ s" "match_embed pre = Some (url, alt, r)" "length r < length pre"
        by blast
      from match_embed_covers[OF r(2)] obtain m where m: "pre = m @ r"
        by blast
      have "replace_embeds files (r @ s) = replace_embeds files r @ replace_embeds files s"
      proof (rule less.hyps[OF r(3)])
        show "\<forall>i < length r. \<forall>url alt rest.
                match_embed (drop i r @ s) = Some (url, alt, rest) \<longrightarrow> length s \<le> length rest"
        proof (intro allI impI)
          fix i url' alt' rest'
          assume "i < length r" and "match_embed (drop i r @ s) = Some (url', alt', rest')"
          with less.prems[rule_format, of "length m + i" url' alt' rest'] m
          show "length s \<le> length rest'" by simp
        qed
      qed
      with x r show ?thesis
        by (simp add: replace_embeds_match)
    qed
  qed
qed

subsection \<open>The examples of the spec\<close>

text \<open>E2E-3: four minutes after the stored time nothing is written.\<close>

lemma e2e_3_no_write:
  "handleFileChange e2e_lib e2e_settings
     (e2e_host ''some text'' (Inr [''updated'' \<mapsto> Str ''2024-01-01T10:00'']))
     (File (e2e_file (Finite 1704103440000)))
   = (Ok, e2e_host ''some text'' (Inr [''updated'' \<mapsto> Str ''2024-01-01T10:00'']))"
proof -
  let ?fm = "[''updated'' \<mapsto> Str ''2024-01-01T10:00'']"
  let ?host = "e2e_host ''some text'' (Inr ?fm)"
  let ?file = "e2e_file (Finite 1704103440000)"
  have k: "headerUpdated e2e_settings = ''updated''" "minMinutesBetweenSaves e2e_settings = 5"
    by (simp_all add: e2e_settings_def)
  have "update_frontmatter e2e_lib (clock ?host) e2e_settings ?file ?fm =
          Inr (if (1704103200000 :: int) + minMinutesBetweenSaves e2e_settings * 60000 < 1704103440000
               then ?fm(headerUpdated e2e_settings \<mapsto> Str ''2024-01-01T10:04'') else ?fm)"
  proof (rule update_frontmatter_debounce)
    show "truthy (lookup ?fm (headerUpdated e2e_settings))"
      by (simp add: k lookup_def)
    show "parseDate e2e_lib (clock ?host) e2e_settings (lookup ?fm (headerUpdated e2e_settings))
            = Some (Date 1704103200000)"
      by (simp add: k lookup_def e2e_lib_def e2e_settings_def DEFAULT_SETTINGS_def)
    show "time_clip (mtime (stat ?file)) = Date 1704103440000"
      by (simp add: e2e_file_def to_integer_def)
    show "formatDate e2e_lib e2e_settings (Date 1704103440000) = Inr ''2024-01-01T10:04''"
      by (simp add: formatDate_def e2e_lib_def e2e_settings_def DEFAULT_SETTINGS_def)
  qed (simp_all add: k)
  then have u: "update_frontmatter e2e_lib (clock ?host) e2e_settings ?file ?fm = Inr ?fm"
    by (simp add: k)
  have m: "metadata ?host (path ?file) = Inr ?fm"
    by (simp add: e2e_host_def)
  then have "(metadata ?host)(path ?file := Inr ?fm) = metadata ?host"
    by (rule fun_upd_idem)
  then have "?host\<lparr>metadata := (metadata ?host)(path ?file := Inr ?fm)\<rparr> = ?host"
    by simp
  with handleFileChange_applied[OF e2e_not_ignored(1) m u] show ?thesis
    by simp
qed

text \<open>
  A key that every object inherits: with \<^verbatim>\<open>headerUpdated\<close> set to \<^verbatim>\<open>constructor\<close> and an
  empty block, the value read is a function, and nothing is written.
\<close>

lemma inherited_key_example:
  "handleFileChange e2e_lib (e2e_settings\<lparr>headerUpdated := ''constructor''\<rparr>)
     (e2e_host ''some text'' (Inr Map.empty)) (File (e2e_file (Finite 1704103560000)))
   = (Ok, e2e_host ''some text'' (Inr Map.empty))"
proof -
  let ?settings = "e2e_settings\<lparr>headerUpdated := ''constructor''\<rparr>"
  let ?host = "e2e_host ''some text'' (Inr Map.empty)"
  let ?file = "e2e_file (Finite 1704103560000)"
  have i: "\<not> shouldFileBeIgnored ?settings ?host ?file"
    by (simp add: shouldFileBeIgnored_def e2e_settings_def e2e_host_def e2e_file_def
        DEFAULT_SETTINGS_def getIgnoreFolders_def isExcalidrawFile_def trim_def is_white_space_def)
  have m: "metadata ?host (path ?file) = Inr Map.empty"
    by (simp add: e2e_host_def)
  have u: "update_frontmatter e2e_lib (clock ?host) ?settings ?file Map.empty = Inr Map.empty"
    by (rule inherited_key_never_written) (simp_all add: Object_prototype_def)
  from m have "(metadata ?host)(path ?file := Inr Map.empty) = metadata ?host"
    by (rule fun_upd_idem)
  then have "?host\<lparr>metadata := (metadata ?host)(path ?file := Inr Map.empty)\<rparr> = ?host"
    by simp
  with handleFileChange_applied[OF i m u] show ?thesis
    by simp
qed

text \<open>E2E-1 and E2E-2, and a text with several embeds.\<close>

lemma e2e_1: "replace_embeds [(''img 1.png'', 1)] ''![[img 1.png]]'' = ''![](img%201.png)''"
  by (simp add: match_embed_def replacer_def string_includes_def)

lemma e2e_2:
  "replace_embeds [(''img 1.png'', 1)] ''![[photo|My Photo]]'' = ''![My Photo](photo)''"
  by (simp add: match_embed_def replacer_def string_includes_def sublist_Cons_right)

lemma e2e_mixed:
  "replace_embeds [(''assets/my img 1.png'', 2), (''assets/img 1.png'', 1)]
     ''a ![[img 1.png|x]] b [[c]] ![[d]]''
   = ''a ![x](assets/my%20img 1.png) b [[c]] ![](d)''"
  by (simp add: match_embed_def replacer_def string_includes_def sublist_Cons_right)

subsection \<open>Claims about the settings\<close>

text \<open>
  C9. \<^verbatim>\<open>getIgnoreFolders\<close> reads a bare string as the one-element list of that string,
  and an absent setting as the empty list.
\<close>

theorem getIgnoreFolders_legacy:
  "getIgnoreFolders (settings\<lparr>ignoreGlobalFolder := Some (Legacy s)\<rparr>)
     = getIgnoreFolders (settings\<lparr>ignoreGlobalFolder := Some (Folders [s])\<rparr>)
   \<and> getIgnoreFolders (settings\<lparr>ignoreGlobalFolder := Some (Legacy s)\<rparr>) = [s]
   \<and> getIgnoreFolders (settings\<lparr>ignoreGlobalFolder := None\<rparr>) = []"
  by (simp add: getIgnoreFolders_def)

subsection \<open>Claims about the engine\<close>

text \<open>
  C1. With a stored, parseable timestamp \<open>t0\<close> and a window of \<open>m\<close> minutes (not
  negative), a modify event that reaches the decision writes \<open>formatDate mTime\<close> into the
  key if and only if \<open>mTime\<close> is strictly after \<open>t0 + m\<close> minutes; at \<open>t0 + m\<close> minutes
  exactly, and before, the metadata stays as it is.
\<close>

theorem debounce_strict:
  assumes "\<not> shouldFileBeIgnored settings host file"
    and "metadata host (path file) = Inr fm"
    and "truthy (lookup fm (headerUpdated settings))"
    and "parseDate lib (clock host) settings (lookup fm (headerUpdated settings)) = Some (Date t0)"
    and "\<bar>t0\<bar> \<le> 8640000000000000"
    and "time_clip (mtime (stat file)) = Date t1"
    and "0 \<le> minMinutesBetweenSaves settings"
    and "formatDate lib settings (Date t1) = Inr s"
  shows "handleFileChange lib settings host (File file) =
           (Ok, if t0 + minMinutesBetweenSaves settings * 60000 < t1
                then host\<lparr>metadata := (metadata host)
                       (path file := Inr (fm(headerUpdated settings \<mapsto> Str s)))\<rparr>
                else host)"
proof -
  from assms(2) have "(metadata host)(path file := Inr fm) = metadata host"
    by (rule fun_upd_idem)
  then have same: "host\<lparr>metadata := (metadata host)(path file := Inr fm)\<rparr> = host"
    by simp
  show ?thesis
    using handleFileChange_applied[OF assms(1,2) update_frontmatter_debounce[OF assms(3-8)]] same
    by (simp split: if_splits)
qed

theorem debounce_strict_witness:
  "\<not> shouldFileBeIgnored e2e_settings
       (e2e_host ''some text'' (Inr [''updated'' \<mapsto> Str ''2024-01-01T10:00'']))
       (e2e_file (Finite 1704103560000))
   \<and> truthy (lookup [''updated'' \<mapsto> Str ''2024-01-01T10:00''] (headerUpdated e2e_settings))
   \<and> parseDate e2e_lib (Date 1704103560000) e2e_settings
        (lookup [''updated'' \<mapsto> Str ''2024-01-01T10:00''] (headerUpdated e2e_settings))
        = Some (Date 1704103200000)
   \<and> time_clip (mtime (stat (e2e_file (Finite 1704103560000)))) = Date 1704103560000
   \<and> 0 \<le> minMinutesBetweenSaves e2e_settings
   \<and> formatDate e2e_lib e2e_settings (Date 1704103560000) = Inr ''2024-01-01T10:06''
   \<and> handleFileChange e2e_lib e2e_settings
        (e2e_host ''some text'' (Inr [''updated'' \<mapsto> Str ''2024-01-01T10:00'']))
        (File (e2e_file (Finite 1704103560000)))
      = (Ok, (e2e_host ''some text'' (Inr [''updated'' \<mapsto> Str ''2024-01-01T10:00'']))
               \<lparr>metadata := (\<lambda>p. Inr [''updated'' \<mapsto> Str ''2024-01-01T10:00''])
                   (''notes/a.md'' := Inr [''updated'' \<mapsto> Str ''2024-01-01T10:06''])\<rparr>)"
proof -
  let ?fm = "[''updated'' \<mapsto> Str ''2024-01-01T10:00'']"
  let ?host = "e2e_host ''some text'' (Inr ?fm)"
  let ?file = "e2e_file (Finite 1704103560000)"
  have h1: "\<not> shouldFileBeIgnored e2e_settings ?host ?file"
    by (rule e2e_not_ignored(1))
  have h2: "metadata ?host (path ?file) = Inr ?fm"
    by (simp add: e2e_host_def)
  have h3: "truthy (lookup ?fm (headerUpdated e2e_settings))"
    by (simp add: lookup_def e2e_settings_def)
  have h4: "parseDate e2e_lib (clock ?host) e2e_settings (lookup ?fm (headerUpdated e2e_settings))
              = Some (Date 1704103200000)"
    by (simp add: lookup_def e2e_settings_def e2e_lib_def DEFAULT_SETTINGS_def)
  have h5: "\<bar>1704103200000 :: int\<bar> \<le> 8640000000000000"
    by simp
  have h6: "time_clip (mtime (stat ?file)) = Date 1704103560000"
    by (simp add: e2e_file_def to_integer_def)
  have h7: "0 \<le> minMinutesBetweenSaves e2e_settings"
    by (simp add: e2e_settings_def)
  have h8: "formatDate e2e_lib e2e_settings (Date 1704103560000) = Inr ''2024-01-01T10:06''"
    by (simp add: formatDate_def e2e_lib_def e2e_settings_def DEFAULT_SETTINGS_def)
  have c: "clock ?host = Date 1704103560000" "path ?file = ''notes/a.md''"
    "headerUpdated e2e_settings = ''updated''" "minMinutesBetweenSaves e2e_settings = 5"
    "metadata ?host = (\<lambda>p. Inr ?fm)"
    by (simp_all add: e2e_host_def e2e_file_def e2e_settings_def)
  from debounce_strict[OF h1 h2 h3 h4 h5 h6 h7 h8] h1 h3 h4 h6 h7 h8 show ?thesis
    by (simp add: c)
qed

text \<open>
  C2, as the code has it. When the value read at \<^verbatim>\<open>headerUpdated\<close> is falsy (the key
  absent, or its value empty) or \<^verbatim>\<open>parseDate\<close> returns no value for it, then under every
  window \<^verbatim>\<open>minMinutesBetweenSaves\<close>: if \<open>formatDate mTime\<close> returns a string, the engine
  writes it into the key, a malformed value overwritten; if \<open>formatDate\<close> throws, no
  metadata block changes, and unless the exception is named \<^verbatim>\<open>YAMLParseError\<close> the
  outcome is \<^verbatim>\<open>ok\<close> with the host as it was.
\<close>

theorem first_write:
  assumes "\<not> shouldFileBeIgnored settings host file"
    and "metadata host (path file) = Inr fm"
    and "\<not> truthy (lookup fm (headerUpdated settings))
         \<or> parseDate lib (clock host) settings (lookup fm (headerUpdated settings)) = None"
  shows "case formatDate lib settings (time_clip (mtime (stat file))) of
           Inr s \<Rightarrow>
             handleFileChange lib (settings\<lparr>minMinutesBetweenSaves := m\<rparr>) host (File file) =
               (Ok, host\<lparr>metadata := (metadata host)
                      (path file := Inr (fm(headerUpdated settings \<mapsto> Str s)))\<rparr>)
         | Inl e \<Rightarrow>
             metadata (snd (handleFileChange lib (settings\<lparr>minMinutesBetweenSaves := m\<rparr>) host
                              (File file))) = metadata host
             \<and> (thrown_name e \<noteq> Some ''YAMLParseError'' \<longrightarrow>
                  handleFileChange lib (settings\<lparr>minMinutesBetweenSaves := m\<rparr>) host (File file)
                    = (Ok, host))"
proof -
  let ?settings = "settings\<lparr>minMinutesBetweenSaves := m\<rparr>"
  let ?mTime = "time_clip (mtime (stat file))"
  from assms(1) have 1: "\<not> shouldFileBeIgnored ?settings host file"
    by (simp add: window_irrelevant)
  from assms(3) have 3: "\<not> truthy (lookup fm (headerUpdated ?settings))
         \<or> parseDate lib (clock host) ?settings (lookup fm (headerUpdated ?settings)) = None"
    by (simp add: window_irrelevant)
  show ?thesis
  proof (cases "formatDate lib settings ?mTime")
    case (Inr s)
    then have 4: "formatDate lib ?settings ?mTime = Inr s"
      by (simp add: window_irrelevant)
    from handleFileChange_applied[OF 1 assms(2) update_frontmatter_first_write[OF 3 4]] Inr
    show ?thesis by simp
  next
    case (Inl e)
    then have 4: "formatDate lib ?settings ?mTime = Inl e"
      by (simp add: window_irrelevant)
    from handleFileChange_callback_throws[OF 1 assms(2) update_frontmatter_first_write_throws[OF 3 4]]
      Inl
    show ?thesis by (simp add: Notice_def)
  qed
qed

theorem first_write_witness:
  "\<not> shouldFileBeIgnored e2e_settings
       (e2e_host ''some text'' (Inr [''updated'' \<mapsto> Str ''yesterday'']))
       (e2e_file (Finite 1704103440000))
   \<and> parseDate e2e_lib (Date 1704103560000) e2e_settings
        (lookup [''updated'' \<mapsto> Str ''yesterday''] (headerUpdated e2e_settings)) = None
   \<and> formatDate e2e_lib e2e_settings (time_clip (mtime (stat (e2e_file (Finite 1704103440000)))))
        = Inr ''2024-01-01T10:04''
   \<and> handleFileChange e2e_lib (e2e_settings\<lparr>minMinutesBetweenSaves := 30\<rparr>)
        (e2e_host ''some text'' (Inr [''updated'' \<mapsto> Str ''yesterday'']))
        (File (e2e_file (Finite 1704103440000)))
      = (Ok, (e2e_host ''some text'' (Inr [''updated'' \<mapsto> Str ''yesterday'']))
               \<lparr>metadata := (\<lambda>p. Inr [''updated'' \<mapsto> Str ''yesterday''])
                   (''notes/a.md'' := Inr [''updated'' \<mapsto> Str ''2024-01-01T10:04''])\<rparr>)"
proof -
  let ?fm = "[''updated'' \<mapsto> Str ''yesterday'']"
  let ?host = "e2e_host ''some text'' (Inr ?fm)"
  let ?file = "e2e_file (Finite 1704103440000)"
  have h1: "\<not> shouldFileBeIgnored e2e_settings ?host ?file"
    by (rule e2e_not_ignored(1))
  have h2: "metadata ?host (path ?file) = Inr ?fm"
    by (simp add: e2e_host_def)
  have p: "parseDate e2e_lib (Date 1704103560000) e2e_settings
             (lookup ?fm (headerUpdated e2e_settings)) = None"
    by (simp add: lookup_def e2e_settings_def e2e_lib_def DEFAULT_SETTINGS_def)
  have c: "clock ?host = Date 1704103560000" "path ?file = ''notes/a.md''"
    "headerUpdated e2e_settings = ''updated''" "metadata ?host = (\<lambda>p. Inr ?fm)"
    by (simp_all add: e2e_host_def e2e_file_def e2e_settings_def)
  from p have h3: "\<not> truthy (lookup ?fm (headerUpdated e2e_settings))
            \<or> parseDate e2e_lib (clock ?host) e2e_settings (lookup ?fm (headerUpdated e2e_settings))
                = None"
    by (simp only: c simp_thms)
  have f: "formatDate e2e_lib e2e_settings (time_clip (mtime (stat ?file)))
              = Inr ''2024-01-01T10:04''"
    by (simp add: formatDate_def e2e_lib_def e2e_file_def to_integer_def e2e_settings_def
        DEFAULT_SETTINGS_def)
  from first_write[OF h1 h2 h3, where m = 30] h1 p f show ?thesis
    by (simp add: c)
qed

text \<open>
  The claim as the spec words it, a write in every case, fails where date-fns rejects the
  pattern: with \<^verbatim>\<open>dateFormat\<close> set to \<^verbatim>\<open>n\<close> the stored value is unparseable, \<^verbatim>\<open>format\<close>
  throws its \<^verbatim>\<open>RangeError\<close>, the \<^verbatim>\<open>catch\<close> lets it go, and the key keeps its value.
\<close>

theorem first_write_counterexample:
  "\<not> shouldFileBeIgnored (e2e_settings\<lparr>dateFormat := ''n''\<rparr>)
       (e2e_host ''some text'' (Inr [''updated'' \<mapsto> Str ''2024-01-01T10:00'']))
       (e2e_file (Finite 1704103560000))
   \<and> parseDate e2e_lib (Date 1704103560000) (e2e_settings\<lparr>dateFormat := ''n''\<rparr>)
        (lookup [''updated'' \<mapsto> Str ''2024-01-01T10:00'']
           (headerUpdated (e2e_settings\<lparr>dateFormat := ''n''\<rparr>))) = None
   \<and> handleFileChange e2e_lib (e2e_settings\<lparr>dateFormat := ''n''\<rparr>)
        (e2e_host ''some text'' (Inr [''updated'' \<mapsto> Str ''2024-01-01T10:00'']))
        (File (e2e_file (Finite 1704103560000)))
      = (Ok, e2e_host ''some text'' (Inr [''updated'' \<mapsto> Str ''2024-01-01T10:00'']))
   \<and> metadata (e2e_host ''some text'' (Inr [''updated'' \<mapsto> Str ''2024-01-01T10:00'']))
        ''notes/a.md'' = Inr [''updated'' \<mapsto> Str ''2024-01-01T10:00'']"
proof -
  let ?settings = "e2e_settings\<lparr>dateFormat := ''n''\<rparr>"
  let ?fm = "[''updated'' \<mapsto> Str ''2024-01-01T10:00'']"
  let ?host = "e2e_host ''some text'' (Inr ?fm)"
  let ?file = "e2e_file (Finite 1704103560000)"
  let ?e = "Err ''RangeError'' ''Format string contains an unescaped latin alphabet character''"
  have i: "\<not> shouldFileBeIgnored ?settings ?host ?file"
    by (rule e2e_not_ignored(2))
  have k: "headerUpdated ?settings = ''updated''" "dateFormat ?settings = ''n''"
    by (simp_all add: e2e_settings_def)
  have c: "clock ?host = Date 1704103560000" "metadata ?host (path ?file) = Inr ?fm"
    "metadata ?host ''notes/a.md'' = Inr ?fm"
    by (simp_all add: e2e_host_def)
  have p: "parseDate e2e_lib (Date 1704103560000) ?settings (lookup ?fm (headerUpdated ?settings))
             = None"
    by (simp add: k lookup_def e2e_lib_def)
  have f: "formatDate e2e_lib ?settings (time_clip (mtime (stat ?file))) = Inl ?e"
    by (simp add: formatDate_def k e2e_lib_def)
  from p have "\<not> truthy (lookup ?fm (headerUpdated ?settings))
      \<or> parseDate e2e_lib (clock ?host) ?settings (lookup ?fm (headerUpdated ?settings)) = None"
    by (simp only: c simp_thms)
  from update_frontmatter_first_write_throws[OF this f]
  have "update_frontmatter e2e_lib (clock ?host) ?settings ?file ?fm = Inl ?e" .
  from handleFileChange_callback_throws[OF i c(2) this]
  have "handleFileChange e2e_lib ?settings ?host (File ?file) = (Ok, ?host)"
    by simp
  with i p c(3) show ?thesis by simp
qed

text \<open>
  C3. A file that the eligibility filter rejects (empty path, extension other than
  \<^verbatim>\<open>md\<close>, the name \<^verbatim>\<open>Canvas.md\<close>, a text of white space only, a file that Excalidraw
  owns, a path that starts with one of the ignored folders) gets the status
  \<^verbatim>\<open>ignored\<close>, and nothing of the host changes: no metadata block, whatever it holds, and
  no notice.
\<close>

theorem ignored_files_untouched:
  assumes "path file = [] \<or> extension file \<noteq> ''md'' \<or> name file = ''Canvas.md''
           \<or> trim (vault_read host file) = [] \<or> isExcalidrawFile host file
           \<or> (\<exists>ignoreItem \<in> set (getIgnoreFolders settings). startsWith (path file) ignoreItem)"
  shows "handleFileChange lib settings host (File file) = (Ignored, host)"
  using assms by (simp add: handleFileChange_def shouldFileBeIgnored_iff)

theorem ignored_files_untouched_witness:
  "trim (vault_read (e2e_host [CHR '' '', CHR 0x0A, CHR 0x09] (Inr Map.empty))
           (e2e_file (Finite 1704103560000))) = []
   \<and> handleFileChange e2e_lib e2e_settings
        (e2e_host [CHR '' '', CHR 0x0A, CHR 0x09] (Inr Map.empty))
        (File (e2e_file (Finite 1704103560000)))
      = (Ignored, e2e_host [CHR '' '', CHR 0x0A, CHR 0x09] (Inr Map.empty))"
proof -
  let ?host = "e2e_host [CHR '' '', CHR 0x0A, CHR 0x09] (Inr Map.empty)"
  let ?file = "e2e_file (Finite 1704103560000)"
  have t: "trim (vault_read ?host ?file) = []"
    by (simp add: e2e_host_def trim_def is_white_space_def)
  then have h: "path ?file = [] \<or> extension ?file \<noteq> ''md'' \<or> name ?file = ''Canvas.md''
           \<or> trim (vault_read ?host ?file) = [] \<or> isExcalidrawFile ?host ?file
           \<or> (\<exists>ignoreItem \<in> set (getIgnoreFolders e2e_settings). startsWith (path ?file) ignoreItem)"
    by (simp only: simp_thms)
  from ignored_files_untouched[OF h] t show ?thesis
    by (simp only: simp_thms)
qed

text \<open>
  C4. When the metadata primitive fails with an exception named \<^verbatim>\<open>YAMLParseError\<close>,
  \<^verbatim>\<open>handleFileChange\<close> returns the error outcome with that exception, shows one notice (for
  4000 ms) whose text holds the file's path and the exception's message, and leaves every
  metadata block as it was.
\<close>

theorem yaml_parse_error_reported:
  assumes "\<not> shouldFileBeIgnored settings host file"
    and "fst (processFrontMatter host file (update_frontmatter lib (clock host) settings file)) = Inl e"
    and "thrown_name e = Some ''YAMLParseError''"
  shows "handleFileChange lib settings host (File file) =
           (Error e, host\<lparr>notices := notices host @ [(errorMessage file (thrown_message e), 4000)]\<rparr>)
         \<and> metadata (snd (handleFileChange lib settings host (File file))) = metadata host
         \<and> sublist (path file) (errorMessage file (thrown_message e))
         \<and> sublist (thrown_message e) (errorMessage file (thrown_message e))"
proof -
  let ?p = "processFrontMatter host file (update_frontmatter lib (clock host) settings file)"
  from assms(2) have "snd ?p = host" by (rule processFrontMatter_fails)
  with assms(2) have "?p = (Inl e, host)" by (metis prod.collapse)
  with assms(1,3) have r: "handleFileChange lib settings host (File file) =
      (Error e, host\<lparr>notices := notices host @ [(errorMessage file (thrown_message e), 4000)]\<rparr>)"
    by (simp add: handleFileChange_def Notice_def)
  have "errorMessage file (thrown_message e) =
          (''Update time on edit failed'' @ [CHR 0x0A, CHR 0x09]
             @ ''Malformed frontamtter on this file : '')
          @ path file @ ([CHR 0x0A, CHR 0x09, CHR 0x0A, CHR 0x09] @ thrown_message e)"
    by (simp add: errorMessage_def)
  then have p: "sublist (path file) (errorMessage file (thrown_message e))"
    by (simp only: sublist_appendI)
  have "errorMessage file (thrown_message e) =
          (''Update time on edit failed'' @ [CHR 0x0A, CHR 0x09]
             @ ''Malformed frontamtter on this file : '' @ path file
             @ [CHR 0x0A, CHR 0x09, CHR 0x0A, CHR 0x09])
          @ thrown_message e"
    by (simp add: errorMessage_def)
  then have m: "sublist (thrown_message e) (errorMessage file (thrown_message e))"
    by (simp only: sublist_append_leftI)
  from r p m show ?thesis by simp
qed

theorem yaml_parse_error_reported_witness:
  "\<not> shouldFileBeIgnored e2e_settings
       (e2e_host ''some text'' (Inl (Err ''YAMLParseError'' ''bad indentation'')))
       (e2e_file (Finite 1704103560000))
   \<and> fst (processFrontMatter
        (e2e_host ''some text'' (Inl (Err ''YAMLParseError'' ''bad indentation'')))
        (e2e_file (Finite 1704103560000))
        (update_frontmatter e2e_lib (Date 1704103560000) e2e_settings
           (e2e_file (Finite 1704103560000))))
      = Inl (Err ''YAMLParseError'' ''bad indentation'')
   \<and> thrown_name (Err ''YAMLParseError'' ''bad indentation'') = Some ''YAMLParseError''
   \<and> handleFileChange e2e_lib e2e_settings
        (e2e_host ''some text'' (Inl (Err ''YAMLParseError'' ''bad indentation'')))
        (File (e2e_file (Finite 1704103560000)))
      = (Error (Err ''YAMLParseError'' ''bad indentation''),
         (e2e_host ''some text'' (Inl (Err ''YAMLParseError'' ''bad indentation'')))
           \<lparr>notices := [(''Update time on edit failed'' @ [CHR 0x0A, CHR 0x09]
               @ ''Malformed frontamtter on this file : notes/a.md'' @ [CHR 0x0A, CHR 0x09]
               @ [CHR 0x0A, CHR 0x09] @ ''bad indentation'', 4000)]\<rparr>)"
proof -
  let ?e = "Err ''YAMLParseError'' ''bad indentation''"
  let ?host = "e2e_host ''some text'' (Inl ?e)"
  let ?file = "e2e_file (Finite 1704103560000)"
  have h1: "\<not> shouldFileBeIgnored e2e_settings ?host ?file"
    by (rule e2e_not_ignored(1))
  have h2: "fst (processFrontMatter ?host ?file
              (update_frontmatter e2e_lib (clock ?host) e2e_settings ?file)) = Inl ?e"
    by (simp add: processFrontMatter_def e2e_host_def)
  have h3: "thrown_name ?e = Some ''YAMLParseError''"
    by simp
  have c: "clock ?host = Date 1704103560000" "notices ?host = []"
    "errorMessage ?file (thrown_message ?e)
       = ''Update time on edit failed'' @ [CHR 0x0A, CHR 0x09]
               @ ''Malformed frontamtter on this file : notes/a.md'' @ [CHR 0x0A, CHR 0x09]
               @ [CHR 0x0A, CHR 0x09] @ ''bad indentation''"
    by (simp_all add: e2e_host_def errorMessage_def e2e_file_def)
  from yaml_parse_error_reported[OF h1 h2 h3] h1 h2 show ?thesis
    unfolding c by simp
qed

text \<open>
  C10. When the metadata primitive fails with anything whose name is not
  \<^verbatim>\<open>YAMLParseError\<close>, \<^verbatim>\<open>handleFileChange\<close> returns \<^verbatim>\<open>ok\<close>, shows no notice, and the
  host is as before: nothing was written.
\<close>

theorem other_exceptions_swallowed:
  assumes "\<not> shouldFileBeIgnored settings host file"
    and "fst (processFrontMatter host file (update_frontmatter lib (clock host) settings file)) = Inl e"
    and "thrown_name e \<noteq> Some ''YAMLParseError''"
  shows "handleFileChange lib settings host (File file) = (Ok, host)"
proof -
  let ?p = "processFrontMatter host file (update_frontmatter lib (clock host) settings file)"
  from assms(2) have "snd ?p = host" by (rule processFrontMatter_fails)
  with assms(2) have "?p = (Inl e, host)" by (metis prod.collapse)
  with assms(1,3) show ?thesis
    by (simp add: handleFileChange_def)
qed

theorem other_exceptions_swallowed_witness:
  "\<not> shouldFileBeIgnored e2e_settings (e2e_host ''some text'' (Inr Map.empty)) (e2e_file NaN)
   \<and> fst (processFrontMatter (e2e_host ''some text'' (Inr Map.empty)) (e2e_file NaN)
        (update_frontmatter e2e_lib (Date 1704103560000) e2e_settings (e2e_file NaN)))
      = Inl (Err ''RangeError'' ''Invalid time value'')
   \<and> thrown_name (Err ''RangeError'' ''Invalid time value'') \<noteq> Some ''YAMLParseError''
   \<and> handleFileChange e2e_lib e2e_settings (e2e_host ''some text'' (Inr Map.empty))
        (File (e2e_file NaN))
      = (Ok, e2e_host ''some text'' (Inr Map.empty))"
proof -
  let ?host = "e2e_host ''some text'' (Inr Map.empty)"
  have h1: "\<not> shouldFileBeIgnored e2e_settings ?host (e2e_file NaN)"
    by (rule e2e_not_ignored(1))
  have c: "clock ?host = Date 1704103560000"
    by (simp add: e2e_host_def)
  have h2: "fst (processFrontMatter ?host (e2e_file NaN)
              (update_frontmatter e2e_lib (clock ?host) e2e_settings (e2e_file NaN)))
            = Inl (Err ''RangeError'' ''Invalid time value'')"
  proof -
    have "lookup Map.empty (headerUpdated e2e_settings) = Undefined"
      by (simp add: lookup_def e2e_settings_def Object_prototype_def)
    then have d: "\<not> truthy (lookup Map.empty (headerUpdated e2e_settings))
        \<or> parseDate e2e_lib (clock ?host) e2e_settings
             (lookup Map.empty (headerUpdated e2e_settings)) = None"
      by simp
    have f: "formatDate e2e_lib e2e_settings (time_clip (mtime (stat (e2e_file NaN))))
               = Inl (Err ''RangeError'' ''Invalid time value'')"
      by (simp add: formatDate_def e2e_lib_def e2e_file_def e2e_settings_def DEFAULT_SETTINGS_def)
    have m: "metadata ?host (path (e2e_file NaN)) = Inr Map.empty"
      by (simp add: e2e_host_def)
    from update_frontmatter_first_write_throws[OF d f] m show ?thesis
      by (simp add: processFrontMatter_def)
  qed
  have h3: "thrown_name (Err ''RangeError'' ''Invalid time value'') \<noteq> Some ''YAMLParseError''"
    by simp
  from other_exceptions_swallowed[OF h1 h2 h3] h1 h2 h3 show ?thesis
    unfolding c by simp
qed

text \<open>
  C7. \<^verbatim>\<open>parseDate\<close> of a number always returns a value, and \<^verbatim>\<open>parseDate\<close> of a string
  that the library cannot parse against \<^verbatim>\<open>dateFormat\<close> (it throws), or that it parses to
  an Invalid Date, returns no value; no exception leaves \<^verbatim>\<open>parseDate\<close>.
\<close>

theorem parseDate_never_raises:
  "parseDate lib now settings (Num n) = Some (time_clip n)
   \<and> ((\<exists>e. parse lib input (dateFormat settings) now = Inl e)
        \<or> parse lib input (dateFormat settings) now = Inr Invalid_Date
      \<longrightarrow> parseDate lib now settings (Str input) = None)"
  by auto

theorem parseDate_never_raises_witness:
  "parseDate e2e_lib (Date 1704103560000) (e2e_settings\<lparr>dateFormat := ''n''\<rparr>) (Num NaN)
     = Some Invalid_Date
   \<and> parse e2e_lib ''2024-01-01T10:00'' ''n'' (Date 1704103560000)
     = Inl (Err ''RangeError'' ''Format string contains an unescaped latin alphabet character'')
   \<and> parseDate e2e_lib (Date 1704103560000) (e2e_settings\<lparr>dateFormat := ''n''\<rparr>)
       (Str ''2024-01-01T10:00'') = None"
proof -
  have p: "parse e2e_lib ''2024-01-01T10:00'' ''n'' (Date 1704103560000)
     = Inl (Err ''RangeError'' ''Format string contains an unescaped latin alphabet character'')"
    by (simp add: e2e_lib_def)
  from parseDate_never_raises[of e2e_lib "Date 1704103560000" "e2e_settings\<lparr>dateFormat := ''n''\<rparr>"
      NaN "''2024-01-01T10:00''"] p
  show ?thesis by simp
qed

subsection \<open>Claims about the link normalizer\<close>

text \<open>An embed that the scan reaches, in the scan of a text.\<close>

lemma replace_embeds_occurrence:
  assumes "ref \<noteq> []" and "\<forall>c \<in> set ref. c \<noteq> CHR ''|'' \<and> c \<noteq> CHR '']''"
    and "\<forall>c \<in> set alt. c \<noteq> CHR '']''"
    and "occurrence = ''![['' @ ref @ (if alt = [] then [] else ''|'' @ alt) @ '']]''"
    and "\<forall>i < length pre. \<forall>u a rest.
           match_embed (drop i pre @ occurrence @ post) = Some (u, a, rest)
           \<longrightarrow> length (occurrence @ post) \<le> length rest"
    and "url = (case find (\<lambda>(filePath, nr). string_includes filePath ref) files of
                  None \<Rightarrow> ref
                | Some (filePath, nr) \<Rightarrow> filePath)"
  shows "replace_embeds files (pre @ occurrence @ post) =
           replace_embeds files pre @ ''!['' @ alt @ '']('' @
             (if CHR '' '' \<in> set url
              then takeWhile (\<lambda>c. c \<noteq> CHR '' '') url @ ''%20'' @ tl (dropWhile (\<lambda>c. c \<noteq> CHR '' '') url)
              else url)
           @ '')'' @ replace_embeds files post"
proof -
  have m: "match_embed (occurrence @ post) = Some (ref, if alt = [] then None else Some alt, post)"
  proof (cases "alt = []")
    case True
    with assms(4) match_embed_plain[OF assms(1,2), of post] show ?thesis by simp
  next
    case False
    with assms(4) match_embed_alias[OF assms(1,2) False assms(3), of post] show ?thesis by simp
  qed
  have r: "replacer files ref (if alt = [] then None else Some alt)
             = ''!['' @ alt @ '']('' @ replace_first url CHR '' '' ''%20'' @ '')''"
    by (simp add: replacer_def new_url_find assms(6))
  from assms(5) have "replace_embeds files (pre @ occurrence @ post)
      = replace_embeds files pre @ replace_embeds files (occurrence @ post)"
    by (rule replace_embeds_append)
  also have "replace_embeds files (occurrence @ post)
      = replacer files ref (if alt = [] then None else Some alt) @ replace_embeds files post"
    using m by (rule replace_embeds_match)
  finally show ?thesis
    unfolding r replace_first_space by simp
qed

text \<open>With an index entry, the command puts the scanned text into the editor.\<close>

lemma editorCallback_rewrites:
  assumes "getFiles host = Inr (Some files)"
  shows "editorCallback host editor =
           Inr (editor\<lparr>getValue := replace_embeds files (getValue editor),
                       replaced := getValue editor # replaced editor,
                       getCursor := \<lparr>line = line (getCursor editor), ch = 0\<rparr>,
                       inView := Some (\<lparr>line = line (getCursor editor), ch = 0\<rparr>,
                                       \<lparr>line = line (getCursor editor), ch = 0\<rparr>)\<rparr>)"
  using assms
  by (simp add: editorCallback_def Let_def setValue_def setCursor_def scrollIntoView_def)

text \<open>
  C5. When the link index has the entry \<open>files\<close> for the active document, the command
  replaces the text of the editor, and in the new text every embed \<^verbatim>\<open>![[ref]]\<close> or
  \<^verbatim>\<open>![[ref|alias]]\<close> of the document that the scan reaches (no match that begins before it
  runs into it) stands rewritten to \<^verbatim>\<open>![alias](url)\<close>, between the rewritten text before
  it and the rewritten text after it. A missing alias is the empty string; \<open>url\<close> is the
  first path of the index entry, in its order, that has \<open>ref\<close> as a substring, and \<open>ref\<close>
  itself when there is none; only the first space of \<open>url\<close> becomes \<^verbatim>\<open>%20\<close>.
\<close>

theorem embed_rewritten:
  assumes "getFiles host = Inr (Some files)"
    and "getValue editor = pre @ occurrence @ post"
    and "ref \<noteq> []" and "\<forall>c \<in> set ref. c \<noteq> CHR ''|'' \<and> c \<noteq> CHR '']''"
    and "\<forall>c \<in> set alt. c \<noteq> CHR '']''"
    and "occurrence = ''![['' @ ref @ (if alt = [] then [] else ''|'' @ alt) @ '']]''"
    and "\<forall>i < length pre. \<forall>u a rest.
           match_embed (drop i pre @ occurrence @ post) = Some (u, a, rest)
           \<longrightarrow> length (occurrence @ post) \<le> length rest"
    and "url = (case find (\<lambda>(filePath, nr). string_includes filePath ref) files of
                  None \<Rightarrow> ref
                | Some (filePath, nr) \<Rightarrow> filePath)"
  shows "editorCallback host editor =
           Inr (editor\<lparr>getValue :=
                         replace_embeds files pre @ ''!['' @ alt @ '']('' @
                           (if CHR '' '' \<in> set url
                            then takeWhile (\<lambda>c. c \<noteq> CHR '' '') url @ ''%20''
                                   @ tl (dropWhile (\<lambda>c. c \<noteq> CHR '' '') url)
                            else url)
                         @ '')'' @ replace_embeds files post,
                       replaced := (pre @ occurrence @ post) # replaced editor,
                       getCursor := \<lparr>line = line (getCursor editor), ch = 0\<rparr>,
                       inView := Some (\<lparr>line = line (getCursor editor), ch = 0\<rparr>,
                                       \<lparr>line = line (getCursor editor), ch = 0\<rparr>)\<rparr>)"
  unfolding editorCallback_rewrites[OF assms(1)] assms(2)
    replace_embeds_occurrence[OF assms(3-8)] ..

theorem embed_rewritten_witness:
  "getFiles ((e2e_host ''some text'' (Inr Map.empty))
       \<lparr>resolvedLinks := [(''notes/b.md'', []),
                           (''notes/a.md'', [(''x/my img 1.png'', 1), (''img 1.png'', 3)])]\<rparr>)
     = Inr (Some [(''x/my img 1.png'', 1), (''img 1.png'', 3)])
   \<and> editorCallback
        ((e2e_host ''some text'' (Inr Map.empty))
           \<lparr>resolvedLinks := [(''notes/b.md'', []),
                               (''notes/a.md'', [(''x/my img 1.png'', 1), (''img 1.png'', 3)])]\<rparr>)
        \<lparr>getValue = ''![[a]] ![[img 1.png|pic]] end'', getCursor = \<lparr>line = 0, ch = 7\<rparr>,
           inView = None, replaced = []\<rparr>
      = Inr \<lparr>getValue = ''![](a) ![pic](x/my%20img 1.png) end'',
             getCursor = \<lparr>line = 0, ch = 0\<rparr>,
             inView = Some (\<lparr>line = 0, ch = 0\<rparr>, \<lparr>line = 0, ch = 0\<rparr>),
             replaced = [''![[a]] ![[img 1.png|pic]] end'']\<rparr>"
proof -
  let ?files = "[(''x/my img 1.png'', 1 :: nat), (''img 1.png'', 3)]"
  let ?host = "(e2e_host ''some text'' (Inr Map.empty))
       \<lparr>resolvedLinks := [(''notes/b.md'', []), (''notes/a.md'', ?files)]\<rparr>"
  let ?editor = "\<lparr>getValue = ''![[a]] ![[img 1.png|pic]] end'', getCursor = \<lparr>line = 0, ch = 7\<rparr>,
           inView = None, replaced = []\<rparr>"
  have g: "getFiles ?host = Inr (Some ?files)"
    by (simp add: getFiles_def e2e_host_def e2e_file_def)
  have v: "getValue ?editor = ''![[a]] '' @ ''![[img 1.png|pic]]'' @ '' end''"
    by simp
  have h1: "''img 1.png'' \<noteq> []"
    by simp
  have h2: "\<forall>c \<in> set ''img 1.png''. c \<noteq> CHR ''|'' \<and> c \<noteq> CHR '']''"
    by simp
  have h3: "\<forall>c \<in> set ''pic''. c \<noteq> CHR '']''"
    by simp
  have h4: "''![[img 1.png|pic]]''
              = ''![['' @ ''img 1.png'' @ (if ''pic'' = [] then [] else ''|'' @ ''pic'') @ '']]''"
    by simp
  have h5: "\<forall>i < length ''![[a]] ''. \<forall>u a rest.
         match_embed (drop i ''![[a]] '' @ ''![[img 1.png|pic]]'' @ '' end'') = Some (u, a, rest)
         \<longrightarrow> length (''![[img 1.png|pic]]'' @ '' end'') \<le> length rest"
    by (simp add: match_embed_def All_less_Suc)
  have h6: "''x/my img 1.png'' =
     (case find (\<lambda>(filePath, nr). string_includes filePath ''img 1.png'') ?files of
        None \<Rightarrow> ''img 1.png''
      | Some (filePath, nr) \<Rightarrow> filePath)"
    by (simp add: string_includes_def sublist_Cons_right)
  have pre: "replace_embeds ?files ''![[a]] '' = ''![](a) ''"
    by (simp add: match_embed_def replacer_def string_includes_def sublist_Cons_right)
  have post: "replace_embeds ?files '' end'' = '' end''"
    by (simp add: match_embed_def)
  from embed_rewritten[OF g v h1 h2 h3 h4 h5 h6] g
  show ?thesis
    unfolding pre post by simp
qed

text \<open>
  C8. When the link index has no entry for the active document, the command leaves the
  text of the document as it is and replaces nothing: it only puts the cursor at the start
  of its line and scrolls there.
\<close>

theorem no_index_entry_no_rewrite:
  assumes "getActiveFile host = Some currentMd"
    and "\<forall>(mdFile, links) \<in> set (resolvedLinks host). mdFile \<noteq> path currentMd"
  shows "editorCallback host editor =
           Inr (editor\<lparr>getCursor := \<lparr>line = line (getCursor editor), ch = 0\<rparr>,
                       inView := Some (\<lparr>line = line (getCursor editor), ch = 0\<rparr>,
                                       \<lparr>line = line (getCursor editor), ch = 0\<rparr>)\<rparr>)
         \<and> (\<exists>editor'. editorCallback host editor = Inr editor'
               \<and> getValue editor' = getValue editor \<and> replaced editor' = replaced editor)"
proof -
  from assms have "getFiles host = Inr None"
    by (simp add: getFiles_def getFiles_entries_absent)
  then show ?thesis
    by (simp add: editorCallback_def Let_def setCursor_def scrollIntoView_def)
qed

theorem no_index_entry_no_rewrite_witness:
  "getActiveFile ((e2e_host ''some text'' (Inr Map.empty))\<lparr>resolvedLinks := [(''notes/b.md'', [(''img 1.png'', 1)])]\<rparr>)
     = Some (e2e_file (Finite 1704103560000))
   \<and> resolvedLinks
        ((e2e_host ''some text'' (Inr Map.empty))\<lparr>resolvedLinks := [(''notes/b.md'', [(''img 1.png'', 1)])]\<rparr>)
       = [(''notes/b.md'', [(''img 1.png'', 1)])]
   \<and> path (e2e_file (Finite 1704103560000)) = ''notes/a.md''
   \<and> editorCallback
        ((e2e_host ''some text'' (Inr Map.empty))\<lparr>resolvedLinks := [(''notes/b.md'', [(''img 1.png'', 1)])]\<rparr>)
        \<lparr>getValue = ''![[img 1.png]]'', getCursor = \<lparr>line = 0, ch = 7\<rparr>, inView = None,
           replaced = []\<rparr>
      = Inr \<lparr>getValue = ''![[img 1.png]]'', getCursor = \<lparr>line = 0, ch = 0\<rparr>,
             inView = Some (\<lparr>line = 0, ch = 0\<rparr>, \<lparr>line = 0, ch = 0\<rparr>), replaced = []\<rparr>"
proof -
  let ?host = "(e2e_host ''some text'' (Inr Map.empty))\<lparr>resolvedLinks := [(''notes/b.md'', [(''img 1.png'', 1)])]\<rparr>"
  let ?file = "e2e_file (Finite 1704103560000)"
  have h1: "getActiveFile ?host = Some ?file"
    by (simp add: e2e_host_def)
  have h2: "\<forall>(mdFile, links) \<in> set (resolvedLinks ?host). mdFile \<noteq> path ?file"
    by (simp add: e2e_file_def)
  from no_index_entry_no_rewrite[OF h1 h2,
      of "\<lparr>getValue = ''![[img 1.png]]'', getCursor = \<lparr>line = 0, ch = 7\<rparr>, inView = None,
           replaced = []\<rparr>"]
    h1
  show ?thesis by (simp add: e2e_file_def)
qed

end
